theory Spec2Isabelle
  imports Complex_Main
begin

section \<open>Python values, dictionaries and exceptions\<close>

text \<open>
  The pipeline is Python. Floats are modelled as \<^typ>\<open>real\<close>, Python integers as
  \<^typ>\<open>int\<close>, strings as \<^typ>\<open>string\<close>. A dictionary built from a literal is an
  association list in the order of the literal; subscripting it with a key that is
  missing raises \<open>KeyError\<close>, which is a value of \<open>py_error\<close> here. An external call
  that fails raises some exception, also a value of \<open>py_error\<close>, and so does a file
  or a stream that cannot be written.
\<close>

datatype py_error =
    KeyError string
  | TypeError string
  | AttributeError string
  | ZeroDivisionError
  | ServiceError string
  | OSError string

definition ebind :: "py_error + 'a \<Rightarrow> ('a \<Rightarrow> py_error + 'b) \<Rightarrow> py_error + 'b" where
  "ebind m f = (case m of Inl e \<Rightarrow> Inl e | Inr v \<Rightarrow> f v)"

definition subscript :: "(string \<times> 'v) list \<Rightarrow> string \<Rightarrow> py_error + 'v" where
  "subscript d k = (case map_of d k of None \<Rightarrow> Inl (KeyError k) | Some v \<Rightarrow> Inr v)"

text \<open>\<open>d.get(key, default)\<close> on a field that the record may lack.\<close>

fun get_or :: "'a option \<Rightarrow> 'a \<Rightarrow> 'a" where
  "get_or None d = d"
| "get_or (Some v) d = v"

section \<open>The research-threshold labeler (research\_labelling.py)\<close>

subsection \<open>Constant tables of \<open>ResearchBasedLabeler.__init__\<close>\<close>

definition thresholds :: "(string \<times> real) list" where
  "thresholds =
    [(''domestic_normal_duration'', 11),
     (''domestic_excessive_duration'', 20),
     (''international_normal_duration'', 86),
     (''international_excessive_duration'', 150),
     (''supervisor_approval_bottleneck'', 30),
     (''director_approval_bottleneck'', 45),
     (''excessive_rejections'', 2),
     (''budget_variance_threshold'', 3 / 10),
     (''late_submission_days'', 60)]"

record framework_mapping =
  lean_waste :: string
  agile_principle :: string
  optimization :: string

definition framework_mappings :: "(string \<times> framework_mapping) list" where
  "framework_mappings =
    [(''supervisor_approval_bottleneck'',
        \<lparr>lean_waste = ''waiting'',
         agile_principle = ''working_software_over_documentation'',
         optimization = ''increase_supervisors_or_delegation''\<rparr>),
     (''director_approval_bottleneck'',
        \<lparr>lean_waste = ''waiting'',
         agile_principle = ''responding_to_change'',
         optimization = ''implement_escalation_rules''\<rparr>),
     (''excessive_rejections'',
        \<lparr>lean_waste = ''defects'',
         agile_principle = ''working_software_over_documentation'',
         optimization = ''implement_pre_validation_checks''\<rparr>),
     (''excessive_duration'',
        \<lparr>lean_waste = ''waiting'',
         agile_principle = ''deliver_working_software_frequently'',
         optimization = ''streamline_approval_process''\<rparr>),
     (''late_submission'',
        \<lparr>lean_waste = ''transportation'',
         agile_principle = ''deliver_working_software_frequently'',
         optimization = ''implement_automated_reminders''\<rparr>)]"

subsection \<open>Case features and findings\<close>

text \<open>
  \<open>case_features\<close> is the dictionary of one row. The labeler reads it with
  \<open>.get(key, default)\<close>, so a field is \<open>None\<close> when the key is missing;
  \<open>approval_time_days\<close> is also \<open>None\<close> when the stored value is Python's \<open>None\<close>.
  A float that is not a number (an empty cell read back from the feature table) has no
  real value; it compares false with every threshold, as an absent value does.
\<close>

record case_features =
  case_id :: string
  total_duration_days :: "real option"
  activity_count :: "int option"
  unique_activities :: "int option"
  has_rejections :: "bool option"
  rejection_count :: "int option"
  is_international :: "bool option"
  approval_time_days :: "real option"

text \<open>
  One entry of \<open>labels\<close>. The keys \<open>expected_range\<close>, \<open>expected_value\<close>,
  \<open>expected_rate\<close> and \<open>research_finding\<close> are present in some findings only.
\<close>

record finding =
  type :: string
  severity :: string
  actual_value :: real
  expected_range :: "string option"
  expected_value :: "string option"
  expected_rate :: "string option"
  research_finding :: "string option"
  framework_violation :: framework_mapping

record labels_result =
  inefficiencies :: "finding list"
  severity_score :: int
  total_inefficiency_count :: nat
  optimization_potential :: real

subsection \<open>\<open>_calculate_optimization_potential\<close>\<close>

definition type_potential :: "string \<Rightarrow> real" where
  "type_potential t =
    (if t = ''supervisor_approval_bottleneck'' then 453 / 10
     else if t = ''excessive_duration_international'' then 30
     else if t = ''excessive_duration_domestic'' then 50
     else if t = ''excessive_rejections'' then 20
     else if t = ''process_complexity'' then 15
     else 0)"

fun improvement_loop :: "real \<Rightarrow> finding list \<Rightarrow> real" where
  "improvement_loop improvement_potential [] = improvement_potential"
| "improvement_loop improvement_potential (inefficiency # rest) =
     improvement_loop (improvement_potential + type_potential (type inefficiency)) rest"

definition calculate_optimization_potential :: "finding list \<Rightarrow> real" where
  "calculate_optimization_potential ineffs =
    (if ineffs = [] then 0 else min (improvement_loop 0 ineffs) 80)"

subsection \<open>\<open>label_case_inefficiencies\<close>\<close>

text \<open>
  The function runs four rule blocks in order on the pair \<open>(labels, severity_score)\<close>.
  Each block is one state transformer below; a block raises only through a subscript.
\<close>

type_synonym label_state = "finding list \<times> int"

definition duration_block :: "real \<Rightarrow> bool \<Rightarrow> label_state \<Rightarrow> py_error + label_state" where
  "duration_block duration is_intl st =
    (case st of (labels, score) \<Rightarrow>
      if is_intl then
        ebind (subscript thresholds ''international_excessive_duration'') (\<lambda>limit.
          if duration > limit then
            ebind (subscript framework_mappings ''excessive_duration'') (\<lambda>fv.
              Inr (labels @
                   [\<lparr>type = ''excessive_duration_international'',
                     severity = (if duration > 200 then ''high'' else ''medium''),
                     actual_value = duration,
                     expected_range = Some ''66-86 days'',
                     expected_value = None,
                     expected_rate = None,
                     research_finding = None,
                     framework_violation = fv\<rparr>],
                   score + (if duration > 200 then 3 else 2)))
          else Inr (labels, score))
      else
        ebind (subscript thresholds ''domestic_excessive_duration'') (\<lambda>limit.
          if duration > limit then
            ebind (subscript framework_mappings ''excessive_duration'') (\<lambda>fv.
              Inr (labels @
                   [\<lparr>type = ''excessive_duration_domestic'',
                     severity = (if duration > 30 then ''high'' else ''medium''),
                     actual_value = duration,
                     expected_range = Some ''8-11 days'',
                     expected_value = None,
                     expected_rate = None,
                     research_finding = None,
                     framework_violation = fv\<rparr>],
                   score + (if duration > 30 then 3 else 2)))
          else Inr (labels, score)))"

text \<open>
  \<open>if approval_time:\<close> is Python truthiness: the block is skipped for \<open>None\<close> and
  for the float zero.
\<close>

definition approval_block :: "real option \<Rightarrow> label_state \<Rightarrow> py_error + label_state" where
  "approval_block approval st =
    (case st of (labels, score) \<Rightarrow>
      (case approval of
         None \<Rightarrow> Inr (labels, score)
       | Some approval_time \<Rightarrow>
           if approval_time = 0 then Inr (labels, score)
           else
             ebind (subscript thresholds ''supervisor_approval_bottleneck'') (\<lambda>limit.
               if approval_time > limit then
                 ebind (subscript framework_mappings ''supervisor_approval_bottleneck'') (\<lambda>fv.
                   Inr (labels @
                        [\<lparr>type = ''supervisor_approval_bottleneck'',
                          severity = (if approval_time > 50 then ''high'' else ''medium''),
                          actual_value = approval_time,
                          expected_range = None,
                          expected_value = Some ''3-5 days'',
                          expected_rate = None,
                          research_finding =
                            Some ''39 days average (45.3% of total process time)'',
                          framework_violation = fv\<rparr>],
                        score + 3))
               else Inr (labels, score))))"

text \<open>
  The format \<open>:.0%\<close> of \<open>0.27\<close> and \<open>0.12\<close> gives the texts \<open>27%\<close> and \<open>12%\<close>.
\<close>

definition rejection_block :: "int \<Rightarrow> bool \<Rightarrow> label_state \<Rightarrow> py_error + label_state" where
  "rejection_block rejections is_intl st =
    (case st of (labels, score) \<Rightarrow>
      ebind (subscript thresholds ''excessive_rejections'') (\<lambda>limit.
        if real_of_int rejections > limit then
          (let expected_rejection_rate = (if is_intl then ''27%'' else ''12%'') in
           ebind (subscript framework_mappings ''excessive_rejections'') (\<lambda>fv.
             Inr (labels @
                  [\<lparr>type = ''excessive_rejections'',
                    severity = (if rejections > 3 then ''high'' else ''medium''),
                    actual_value = real_of_int rejections,
                    expected_range = None,
                    expected_value = None,
                    expected_rate = Some expected_rejection_rate,
                    research_finding =
                      Some (''Normal rejection rate: '' @ expected_rejection_rate),
                    framework_violation = fv\<rparr>],
                  score + 2)))
        else Inr (labels, score)))"

definition complexity_block :: "int \<Rightarrow> label_state \<Rightarrow> py_error + label_state" where
  "complexity_block activities st =
    (case st of (labels, score) \<Rightarrow>
      if activities > 20 then
        Inr (labels @
             [\<lparr>type = ''process_complexity'',
               severity = ''medium'',
               actual_value = real_of_int activities,
               expected_range = Some ''8-15 activities'',
               expected_value = None,
               expected_rate = None,
               research_finding = None,
               framework_violation =
                 \<lparr>lean_waste = ''overprocessing'',
                  agile_principle = ''simplicity'',
                  optimization = ''consolidate_approval_steps''\<rparr>\<rparr>],
             score + 1)
      else Inr (labels, score))"

definition label_case_inefficiencies :: "case_features \<Rightarrow> py_error + labels_result" where
  "label_case_inefficiencies cf =
    (let duration = get_or (total_duration_days cf) 0;
         is_intl = get_or (is_international cf) False
     in
     ebind (duration_block duration is_intl ([], 0)) (\<lambda>st1.
     ebind (approval_block (approval_time_days cf) st1) (\<lambda>st2.
     ebind (rejection_block (get_or (rejection_count cf) 0) is_intl st2) (\<lambda>st3.
     ebind (complexity_block (get_or (activity_count cf) 0) st3) (\<lambda>st4.
       (case st4 of (labels, score) \<Rightarrow>
          Inr \<lparr>inefficiencies = labels,
               severity_score = score,
               total_inefficiency_count = length labels,
               optimization_potential = calculate_optimization_potential labels\<rparr>))))))"

subsection \<open>The recommendation tables\<close>

definition recommendations :: "(string \<times> string) list" where
  "recommendations =
    [(''supervisor_approval_bottleneck'',
        ''Increase number of supervisors or implement delegation rules. Consider automated pre-approval for low-value requests.''),
     (''director_approval_bottleneck'',
        ''Implement escalation rules. Director approval should only be required for high-value or high-risk requests.''),
     (''excessive_rejections'',
        ''Implement pre-validation checks and automated compliance screening before submission.''),
     (''excessive_duration_international'',
        ''Streamline international approval process. Consider regional approval authorities.''),
     (''excessive_duration_domestic'',
        ''Implement automated approval for standard domestic travel below threshold amounts.''),
     (''process_complexity'',
        ''Consolidate approval steps. Remove redundant activities and parallel process where possible.''),
     (''late_submission'',
        ''Implement automated reminder system and mobile expense reporting capabilities.'')]"

definition improvements :: "(string \<times> string) list" where
  "improvements =
    [(''supervisor_approval_bottleneck'', ''30-50% reduction in approval time''),
     (''director_approval_bottleneck'', ''40-60% reduction in high-level approval time''),
     (''excessive_rejections'', ''2-14 day reduction in rework cycles''),
     (''excessive_duration_international'', ''20-30% reduction in total process time''),
     (''excessive_duration_domestic'', ''40-60% reduction in total process time''),
     (''process_complexity'', ''15-25% reduction in administrative overhead''),
     (''late_submission'', ''80% reduction in late submissions'')]"

text \<open>\<open>d.get(key, default)\<close> on a dictionary.\<close>

definition dict_get :: "(string \<times> 'v) list \<Rightarrow> string \<Rightarrow> 'v \<Rightarrow> 'v" where
  "dict_get d k dflt = (case map_of d k of None \<Rightarrow> dflt | Some v \<Rightarrow> v)"

definition get_recommendation :: "string \<Rightarrow> string" where
  "get_recommendation inefficiency_type =
     dict_get recommendations inefficiency_type ''Review and optimize process flow''"

definition get_expected_improvement :: "string \<Rightarrow> string" where
  "get_expected_improvement inefficiency_type =
     dict_get improvements inefficiency_type ''10-20% general improvement''"

text \<open>
  Every finding the labeler builds has the key \<open>framework_violation\<close> with its three
  keys, so the defaults of the \<open>.get\<close> calls in
  \<open>generate_optimization_recommendations\<close> are never taken.
\<close>

record recommendation =
  inefficiency_type :: string
  recommendation_text :: string
  expected_improvement :: string
  framework_basis :: string
  lean_principle :: string
  rec_agile_principle :: string

definition generate_optimization_recommendations :: "finding list \<Rightarrow> recommendation list" where
  "generate_optimization_recommendations ineffs =
    map (\<lambda>inefficiency.
          \<lparr>inefficiency_type = type inefficiency,
           recommendation_text = get_recommendation (type inefficiency),
           expected_improvement = get_expected_improvement (type inefficiency),
           framework_basis = optimization (framework_violation inefficiency),
           lean_principle = lean_waste (framework_violation inefficiency),
           rec_agile_principle = agile_principle (framework_violation inefficiency)\<rparr>)
        ineffs"

subsection \<open>\<open>label_dataset\<close>\<close>

record training_label =
  has_inefficiencies :: bool
  severity_level :: string
  primary_bottleneck :: "string option"
  optimization_potential_percent :: real

record labeled_case =
  labeled_case_id :: string
  input_features :: case_features
  inefficiency_labels :: labels_result
  optimization_recommendations :: "recommendation list"
  training :: training_label

text \<open>The conditional expression that buckets \<open>labels['severity_score']\<close>.\<close>

definition severity_level_of :: "int \<Rightarrow> string" where
  "severity_level_of score =
    (if score \<ge> 5 then ''high'' else if score \<ge> 2 then ''medium'' else ''low'')"

text \<open>The body of the loop of \<open>label_dataset\<close>, for one row.\<close>

definition label_row :: "case_features \<Rightarrow> py_error + labeled_case" where
  "label_row cf =
    ebind (label_case_inefficiencies cf) (\<lambda>labels.
      Inr \<lparr>labeled_case_id = case_id cf,
           input_features = cf,
           inefficiency_labels = labels,
           optimization_recommendations =
             generate_optimization_recommendations (inefficiencies labels),
           training =
             \<lparr>has_inefficiencies = (length (inefficiencies labels) > 0),
              severity_level = severity_level_of (severity_score labels),
              primary_bottleneck =
                (case inefficiencies labels of [] \<Rightarrow> None | f # _ \<Rightarrow> Some (type f)),
              optimization_potential_percent = optimization_potential labels\<rparr>\<rparr>)"

fun label_dataset :: "case_features list \<Rightarrow> py_error + labeled_case list" where
  "label_dataset [] = Inr []"
| "label_dataset (row # rows) =
     ebind (label_row row) (\<lambda>labeled.
       ebind (label_dataset rows) (\<lambda>labeled_data. Inr (labeled # labeled_data)))"

section \<open>The feature extractor (data\_exploration.py)\<close>

subsection \<open>Strings\<close>

text \<open>
  \<open>needle in haystack\<close> on Python strings is the substring test. Characters are
  bytes here, and the case folding of \<open>lower()\<close> and of a search with \<open>case=False\<close>
  is modelled on the ASCII letters.
\<close>

fun starts_with :: "string \<Rightarrow> string \<Rightarrow> bool" where
  "starts_with [] s = True"
| "starts_with (c # cs) [] = False"
| "starts_with (c # cs) (d # ds) = (c = d \<and> starts_with cs ds)"

fun str_in :: "string \<Rightarrow> string \<Rightarrow> bool" where
  "str_in needle [] = (needle = [])"
| "str_in needle (c # cs) = (starts_with needle (c # cs) \<or> str_in needle cs)"

definition upper_char :: "char \<Rightarrow> char" where
  "upper_char c =
    (if 97 \<le> (of_char c :: nat) \<and> (of_char c :: nat) \<le> 122
     then char_of ((of_char c :: nat) - 32) else c)"

definition lower_char :: "char \<Rightarrow> char" where
  "lower_char c =
    (if 65 \<le> (of_char c :: nat) \<and> (of_char c :: nat) \<le> 90
     then char_of ((of_char c :: nat) + 32) else c)"

definition lower :: "string \<Rightarrow> string" where
  "lower s = map lower_char s"

text \<open>
  \<open>series.str.contains(pat, na=False, case=False)\<close> for a pattern of plain letters:
  the substring test after folding the case of both sides.
\<close>

definition contains_nocase :: "string \<Rightarrow> string \<Rightarrow> bool" where
  "contains_nocase pat s = str_in (map upper_char pat) (map upper_char s)"

subsection \<open>Events and data frames\<close>

text \<open>
  One row of the data frame of an event log: the columns \<open>case:concept:name\<close>,
  \<open>concept:name\<close> and \<open>time:timestamp\<close>, the time stamp in seconds.
\<close>

record event =
  case_concept_name :: string
  concept_name :: string
  time_timestamp :: real

text \<open>\<open>series.unique()\<close>: the distinct values in the order of their first appearance.\<close>

definition unique :: "'a list \<Rightarrow> 'a list" where
  "unique xs = rev (remdups (rev xs))"

text \<open>
  \<open>sort_values('time:timestamp')\<close>. Events of equal time stamp keep their order here;
  pandas leaves the order of ties open.
\<close>

definition sort_values :: "event list \<Rightarrow> event list" where
  "sort_values evs = sort_key time_timestamp evs"

fun series_max :: "real \<Rightarrow> real list \<Rightarrow> real" where
  "series_max m [] = m"
| "series_max m (x # xs) = series_max (max m x) xs"

fun series_min :: "real \<Rightarrow> real list \<Rightarrow> real" where
  "series_min m [] = m"
| "series_min m (x # xs) = series_min (min m x) xs"

subsection \<open>\<open>extract_training_features\<close>\<close>

text \<open>
  The dictionary \<open>features\<close> holds the keys the labeler reads later and the two
  sequences. The duration of a case without events is not a number; a case taken from
  the data frame always has an event.
\<close>

record training_features = case_features +
  activities_sequence :: "string list"
  timestamps :: "real list"

definition case_training_features :: "string \<Rightarrow> string \<Rightarrow> event list \<Rightarrow> training_features" where
  "case_training_features dataset_name cid df =
    (let case_events = sort_values (filter (\<lambda>e. case_concept_name e = cid) df);
         names = map concept_name case_events;
         times = map time_timestamp case_events;
         submitted_events = filter (\<lambda>e. contains_nocase ''SUBMITTED'' (concept_name e)) case_events;
         approved_events = filter (\<lambda>e. contains_nocase ''APPROVED'' (concept_name e)) case_events
     in
     \<lparr>case_id = cid,
      total_duration_days =
        (case times of
           [] \<Rightarrow> None
         | t # ts \<Rightarrow> Some ((series_max t ts - series_min t ts) / 86400)),
      activity_count = Some (int (length case_events)),
      unique_activities = Some (int (length (unique names))),
      has_rejections = Some (list_ex (\<lambda>act. str_in ''REJECT'' act) names),
      rejection_count = Some (int (length (filter (\<lambda>act. str_in ''REJECT'' act) names))),
      is_international = Some (str_in ''international'' (lower dataset_name)),
      approval_time_days =
        (case (submitted_events, approved_events) of
           (s # _, a # _) \<Rightarrow> Some ((time_timestamp a - time_timestamp s) / 86400)
         | _ \<Rightarrow> None),
      activities_sequence = names,
      timestamps = times\<rparr>)"

text \<open>
  \<open>self.datasets\<close> maps the name of a loaded dataset to its event log, taken here as
  its data frame. The result is \<open>None\<close> when the dataset is not loaded.
\<close>

definition extract_training_features ::
  "(string \<times> event list) list \<Rightarrow> string \<Rightarrow> training_features list option" where
  "extract_training_features datasets dataset_name =
    (case map_of datasets dataset_name of
       None \<Rightarrow> None
     | Some df \<Rightarrow>
         Some (map (\<lambda>cid. case_training_features dataset_name cid df)
                   (unique (map case_concept_name df))))"

subsection \<open>The rejection filter of \<open>identify_bottlenecks\<close>\<close>

text \<open>
  \<open>df[df['concept:name'].str.contains('REJECT|DECLINED', na=False, case=False)]\<close>:
  the rows whose activity matches either alternative, whatever the case of its letters
  (the local variable \<open>rejections\<close> of that method).
\<close>

definition bottleneck_rejections :: "event list \<Rightarrow> event list" where
  "bottleneck_rejections df =
    filter (\<lambda>e. contains_nocase ''REJECT'' (concept_name e)
              \<or> contains_nocase ''DECLINED'' (concept_name e)) df"

section \<open>The deployment validator (validate\_system.py)\<close>

subsection \<open>Parsed JSON documents\<close>

text \<open>
  The value \<open>json.loads\<close> returns. An object is the list of its keys with their values;
  a key is looked up from the front of the list, and \<open>len\<close> counts each key once.
\<close>

datatype json =
    JNull
  | JBool bool
  | JNum real
  | JStr string
  | JArr "json list"
  | JObj "(string \<times> json) list"

text \<open>\<open>x.get(key, default)\<close>: only a dictionary has the method.\<close>

definition py_get :: "json \<Rightarrow> string \<Rightarrow> json \<Rightarrow> py_error + json" where
  "py_get x key dflt =
    (case x of
       JObj kvs \<Rightarrow> Inr (dict_get kvs key dflt)
     | _ \<Rightarrow> Inl (AttributeError ''get''))"

text \<open>
  \<open>len(x)\<close>: defined on strings, lists and dictionaries. A string is its list of
  bytes, so the length of a text with characters outside ASCII is not Python's.
\<close>

definition py_len :: "json \<Rightarrow> py_error + nat" where
  "py_len x =
    (case x of
       JStr s \<Rightarrow> Inr (length s)
     | JArr xs \<Rightarrow> Inr (length xs)
     | JObj kvs \<Rightarrow> Inr (length (remdups (map fst kvs)))
     | _ \<Rightarrow> Inl (TypeError ''len''))"

text \<open>
  \<open>key in x\<close> for a string \<open>key\<close>: a key of a dictionary, an element of a list, a
  substring of a string; a type error on anything else.
\<close>

definition py_contains :: "string \<Rightarrow> json \<Rightarrow> py_error + bool" where
  "py_contains key x =
    (case x of
       JObj kvs \<Rightarrow> Inr (list_ex (\<lambda>kv. fst kv = key) kvs)
     | JArr xs \<Rightarrow> Inr (list_ex (\<lambda>v. v = JStr key) xs)
     | JStr s \<Rightarrow> Inr (str_in key s)
     | _ \<Rightarrow> Inl (TypeError ''in''))"

text \<open>\<open>a / b\<close> on numbers.\<close>

definition py_truediv :: "real \<Rightarrow> real \<Rightarrow> py_error + real" where
  "py_truediv a b = (if b = 0 then Inl ZeroDivisionError else Inr (a / b))"

text \<open>\<open>d[key] = value\<close>: an existing key keeps its place.\<close>

definition dict_set :: "string \<Rightarrow> 'v \<Rightarrow> (string \<times> 'v) list \<Rightarrow> (string \<times> 'v) list" where
  "dict_set k v d =
    (if list_ex (\<lambda>kv. fst kv = k) d
     then map (\<lambda>kv. if fst kv = k then (k, v) else kv) d
     else d @ [(k, v)])"

text \<open>
  \<open>str(e)\<close> of a caught exception: the quoted key of a \<open>KeyError\<close>, the message of
  the others. The messages of \<open>TypeError\<close> and \<open>AttributeError\<close> are shortened to the
  operation that failed; no score depends on them.
\<close>

fun error_str :: "py_error \<Rightarrow> string" where
  "error_str (KeyError k) = [CHR 0x27] @ k @ [CHR 0x27]"
| "error_str (TypeError m) = m"
| "error_str (AttributeError m) = m"
| "error_str ZeroDivisionError = ''division by zero''"
| "error_str (ServiceError m) = m"
| "error_str (OSError m) = m"

text \<open>
  A \<open>try\<close> block whose statements assign to a result one after the other: the stages run
  in order on the result, the first exception ends the block, and the result keeps what
  the earlier stages assigned.
\<close>

fun run_try :: "('s \<Rightarrow> py_error + 's) list \<Rightarrow> 's \<Rightarrow> 's \<times> py_error option" where
  "run_try [] s = (s, None)"
| "run_try (stage # stages) s =
     (case stage s of
        Inl e \<Rightarrow> (s, Some e)
      | Inr s' \<Rightarrow> run_try stages s')"

subsection \<open>The external services\<close>

text \<open>
  Each call to a service returns its response or raises; a response is reduced to the
  fields the validator reads, and a response without such a field raises as well, inside
  the same \<open>try\<close>. \<open>get_object_json\<close> stands for \<open>get_object\<close>, the read of the body
  and \<open>json.loads\<close> together. One run sees one answer per query.
\<close>

record head_object_response =
  ContentLength :: nat
  LastModified :: "string option"

type_synonym config_item = "(string \<times> (string \<times> string) list) list"

record aws =
  head_bucket :: "string \<Rightarrow> py_error + unit"
  describe_table :: "string \<Rightarrow> py_error + string"
  list_foundation_models :: "py_error + string list"
  head_object :: "string \<Rightarrow> string \<Rightarrow> py_error + head_object_response"
  get_object_json :: "string \<Rightarrow> string \<Rightarrow> py_error + json"
  scan :: "string \<Rightarrow> py_error + config_item list"

subsection \<open>\<open>validate_infrastructure\<close>\<close>

record infrastructure_results =
  s3_bucket :: bool
  dynamodb_tables :: "(string \<times> bool) list"
  iam_roles :: bool
  bedrock_access :: bool

definition required_tables :: "string list" where
  "required_tables =
    [''workflow-processing-state'',
     ''agent-performance-metrics'',
     ''workflow-optimization-results'',
     ''system-configuration'']"

fun validate_tables :: "aws \<Rightarrow> string list \<Rightarrow> (string \<times> bool) list \<Rightarrow> (string \<times> bool) list" where
  "validate_tables env [] tables = tables"
| "validate_tables env (table_name # rest) tables =
     validate_tables env rest
       (dict_set table_name
          (case describe_table env table_name of
             Inl e \<Rightarrow> False
           | Inr status \<Rightarrow> status = ''ACTIVE'')
          tables)"

definition validate_infrastructure :: "aws \<Rightarrow> infrastructure_results" where
  "validate_infrastructure env =
    \<lparr>s3_bucket =
       (case head_bucket env ''workflow-optimization-data'' of
          Inl e \<Rightarrow> False
        | Inr u \<Rightarrow> True),
     dynamodb_tables = validate_tables env required_tables [],
     iam_roles = False,
     bedrock_access =
       (case list_foundation_models env of
          Inl e \<Rightarrow> False
        | Inr model_ids \<Rightarrow> filter (\<lambda>m. str_in ''claude-3-5-sonnet'' m) model_ids \<noteq> [])\<rparr>"

subsection \<open>\<open>validate_data_completeness\<close>\<close>

record file_info =
  exists :: bool
  file_size :: "nat option"
  last_modified :: "string option"
  error :: "string option"

record data_results =
  training_data :: "(string \<times> file_info) list"
  framework_knowledge_files :: "(string \<times> file_info) list"
  validation_data :: "(string \<times> file_info) list"
  data_quality_score :: real

definition training_files :: "string list" where
  "training_files =
    [''training_data/input_agent_training.jsonl'',
     ''training_data/analysis_agent_training.jsonl'',
     ''training_data/optimization_agent_training.jsonl'',
     ''training_data/output_agent_training.jsonl'',
     ''training_data/combined_training_dataset.jsonl'']"

definition framework_files :: "string list" where
  "framework_files =
    [''framework_knowledge/agile_framework_knowledge.json'',
     ''framework_knowledge/lean_framework_knowledge.json'',
     ''framework_knowledge/operating_model_knowledge.json'',
     ''framework_knowledge/integrated_optimization_rules.json'',
     ''framework_knowledge/system_prompts.json'']"

definition validation_files :: "string list" where
  "validation_files =
    [''validation_data/validation_cases.json'',
     ''validation_data/benchmark_examples.json'',
     ''validation_data/university_test_data.json'']"

text \<open>The entry of a training file also reads \<open>LastModified\<close> of the response.\<close>

definition check_training_file :: "aws \<Rightarrow> string \<Rightarrow> file_info" where
  "check_training_file env file_path =
    (case ebind (head_object env ''workflow-optimization-data'' file_path) (\<lambda>response.
            case LastModified response of
              None \<Rightarrow> Inl (KeyError ''LastModified'')
            | Some modified \<Rightarrow> Inr (ContentLength response, modified)) of
       Inl e \<Rightarrow> \<lparr>exists = False, file_size = None, last_modified = None,
                  error = Some (error_str e)\<rparr>
     | Inr (len, modified) \<Rightarrow>
         \<lparr>exists = True, file_size = Some len, last_modified = Some modified, error = None\<rparr>)"

definition check_file :: "aws \<Rightarrow> string \<Rightarrow> file_info" where
  "check_file env file_path =
    (case head_object env ''workflow-optimization-data'' file_path of
       Inl e \<Rightarrow> \<lparr>exists = False, file_size = None, last_modified = None,
                  error = Some (error_str e)\<rparr>
     | Inr response \<Rightarrow>
         \<lparr>exists = True, file_size = Some (ContentLength response), last_modified = None,
          error = None\<rparr>)"

fun check_files :: "(string \<Rightarrow> file_info) \<Rightarrow> string list \<Rightarrow> (string \<times> file_info) list
    \<Rightarrow> (string \<times> file_info) list" where
  "check_files check [] files = files"
| "check_files check (file_path # rest) files =
     check_files check rest (dict_set file_path (check file_path) files)"

definition count_existing :: "(string \<times> file_info) list \<Rightarrow> nat" where
  "count_existing files = length (filter (\<lambda>kv. exists (snd kv)) files)"

definition validate_data_completeness :: "aws \<Rightarrow> py_error + data_results" where
  "validate_data_completeness env =
    (let training = check_files (check_training_file env) training_files [];
         framework = check_files (check_file env) framework_files [];
         validation = check_files (check_file env) validation_files [];
         total_files = length training_files + length framework_files + length validation_files;
         existing_files =
           count_existing training + count_existing framework + count_existing validation
     in
     ebind (py_truediv (real existing_files) (real total_files)) (\<lambda>share.
       Inr \<lparr>training_data = training,
            framework_knowledge_files = framework,
            validation_data = validation,
            data_quality_score = share * 100\<rparr>))"

subsection \<open>\<open>validate_framework_knowledge\<close>\<close>

record agile_framework_info =
  agile_core_values_count :: nat
  agile_principles_count :: nat
  agile_detection_rules_count :: nat
  agile_valid_structure :: bool

record lean_framework_info =
  lean_seven_wastes_count :: nat
  lean_principles_count :: nat
  lean_detection_rules_count :: nat
  lean_valid_structure :: bool

record operating_model_info =
  mckinsey_elements_count :: nat
  violations_count :: nat
  patterns_count :: nat
  operating_model_valid_structure :: bool

record integration_rules_info =
  optimization_recommendations_count :: nat
  synergies_count :: nat
  detection_framework_exists :: bool
  integration_valid_structure :: bool

text \<open>
  A sub-dictionary that is still the empty \<open>{}\<close> of the initial value is \<open>None\<close>.
\<close>

record framework_results =
  agile_framework :: "agile_framework_info option"
  lean_framework :: "lean_framework_info option"
  operating_model :: "operating_model_info option"
  integration_rules :: "integration_rules_info option"
  knowledge_completeness_score :: real
  framework_validation_error :: "string option"

text \<open>\<open>len(data.get(key, default))\<close>.\<close>

definition len_of_key :: "json \<Rightarrow> string \<Rightarrow> json \<Rightarrow> py_error + nat" where
  "len_of_key data key dflt = ebind (py_get data key dflt) py_len"

text \<open>\<open>k1 in data and k2 in data\<close>: the second test runs only when the first holds.\<close>

definition both_in :: "string \<Rightarrow> string \<Rightarrow> json \<Rightarrow> py_error + bool" where
  "both_in k1 k2 data =
    ebind (py_contains k1 data) (\<lambda>first.
      if first then py_contains k2 data else Inr False)"

definition load_agile_framework :: "aws \<Rightarrow> framework_results \<Rightarrow> py_error + framework_results" where
  "load_agile_framework env fr =
    ebind (get_object_json env ''workflow-optimization-data''
             ''framework_knowledge/agile_framework_knowledge.json'') (\<lambda>agile_data.
    ebind (len_of_key agile_data ''core_values'' (JArr [])) (\<lambda>core_values.
    ebind (len_of_key agile_data ''twelve_principles'' (JArr [])) (\<lambda>principles.
    ebind (len_of_key agile_data ''agile_detection_rules'' (JArr [])) (\<lambda>rules.
    ebind (both_in ''core_values'' ''twelve_principles'' agile_data) (\<lambda>valid.
      Inr (fr\<lparr>agile_framework :=
             Some \<lparr>agile_core_values_count = core_values,
                   agile_principles_count = principles,
                   agile_detection_rules_count = rules,
                   agile_valid_structure = valid\<rparr>\<rparr>))))))"

definition load_lean_framework :: "aws \<Rightarrow> framework_results \<Rightarrow> py_error + framework_results" where
  "load_lean_framework env fr =
    ebind (get_object_json env ''workflow-optimization-data''
             ''framework_knowledge/lean_framework_knowledge.json'') (\<lambda>lean_data.
    ebind (len_of_key lean_data ''seven_wastes'' (JArr [])) (\<lambda>wastes.
    ebind (len_of_key lean_data ''five_lean_principles'' (JArr [])) (\<lambda>principles.
    ebind (len_of_key lean_data ''lean_waste_detection_rules'' (JArr [])) (\<lambda>rules.
    ebind (both_in ''seven_wastes'' ''five_lean_principles'' lean_data) (\<lambda>valid.
      Inr (fr\<lparr>lean_framework :=
             Some \<lparr>lean_seven_wastes_count = wastes,
                   lean_principles_count = principles,
                   lean_detection_rules_count = rules,
                   lean_valid_structure = valid\<rparr>\<rparr>))))))"

definition load_operating_model :: "aws \<Rightarrow> framework_results \<Rightarrow> py_error + framework_results" where
  "load_operating_model env fr =
    ebind (get_object_json env ''workflow-optimization-data''
             ''framework_knowledge/operating_model_knowledge.json'') (\<lambda>om_data.
    ebind (ebind (py_get om_data ''mckinsey_organize_to_value'' (JObj [])) (\<lambda>mckinsey.
             len_of_key mckinsey ''elements'' (JArr []))) (\<lambda>elements.
    ebind (len_of_key om_data ''operating_model_violations'' (JArr [])) (\<lambda>violations.
    ebind (len_of_key om_data ''optimization_patterns'' (JObj [])) (\<lambda>patterns.
    ebind (py_contains ''mckinsey_organize_to_value'' om_data) (\<lambda>valid.
      Inr (fr\<lparr>operating_model :=
             Some \<lparr>mckinsey_elements_count = elements,
                   violations_count = violations,
                   patterns_count = patterns,
                   operating_model_valid_structure = valid\<rparr>\<rparr>))))))"

definition load_integration_rules :: "aws \<Rightarrow> framework_results \<Rightarrow> py_error + framework_results" where
  "load_integration_rules env fr =
    ebind (get_object_json env ''workflow-optimization-data''
             ''framework_knowledge/integrated_optimization_rules.json'') (\<lambda>integration_data.
    ebind (len_of_key integration_data ''integrated_optimization_recommendations'' (JObj []))
      (\<lambda>recommendations_count.
    ebind (len_of_key integration_data ''framework_synergies'' (JObj [])) (\<lambda>synergies.
    ebind (py_contains ''comprehensive_detection_framework'' integration_data) (\<lambda>detection.
    ebind (py_contains ''integrated_optimization_recommendations'' integration_data) (\<lambda>valid.
      Inr (fr\<lparr>integration_rules :=
             Some \<lparr>optimization_recommendations_count = recommendations_count,
                   synergies_count = synergies,
                   detection_framework_exists = detection,
                   integration_valid_structure = valid\<rparr>\<rparr>))))))"

text \<open>\<open>sum(criteria)\<close> of a list of truth values counts the true ones.\<close>

definition count_true :: "bool list \<Rightarrow> nat" where
  "count_true criteria = length (filter (\<lambda>c. c) criteria)"

definition score_completeness :: "framework_results \<Rightarrow> py_error + framework_results" where
  "score_completeness fr =
    (case agile_framework fr of None \<Rightarrow> Inl (KeyError ''core_values_count'') | Some agile \<Rightarrow>
     case lean_framework fr of None \<Rightarrow> Inl (KeyError ''seven_wastes_count'') | Some lean \<Rightarrow>
     case operating_model fr of None \<Rightarrow> Inl (KeyError ''mckinsey_elements_count'') | Some om \<Rightarrow>
     case integration_rules fr of
       None \<Rightarrow> Inl (KeyError ''optimization_recommendations_count'')
     | Some integration \<Rightarrow>
         (let completeness_criteria =
                [agile_core_values_count agile = 4,
                 agile_principles_count agile = 12,
                 lean_seven_wastes_count lean = 7,
                 lean_principles_count lean = 5,
                 mckinsey_elements_count om = 5,
                 optimization_recommendations_count integration \<ge> 5]
          in
          ebind (py_truediv (real (count_true completeness_criteria))
                            (real (length completeness_criteria))) (\<lambda>share.
            Inr (fr\<lparr>knowledge_completeness_score := share * 100\<rparr>))))"

definition validate_framework_knowledge :: "aws \<Rightarrow> framework_results" where
  "validate_framework_knowledge env =
    (case run_try
            [load_agile_framework env, load_lean_framework env, load_operating_model env,
             load_integration_rules env, score_completeness]
            \<lparr>agile_framework = None, lean_framework = None, operating_model = None,
             integration_rules = None, knowledge_completeness_score = 0,
             framework_validation_error = None\<rparr> of
       (fr, None) \<Rightarrow> fr
     | (fr, Some e) \<Rightarrow> fr\<lparr>framework_validation_error := Some (error_str e)\<rparr>)"

subsection \<open>\<open>validate_research_compliance\<close>\<close>

record benchmark_info =
  domestic_cycle_time_benchmark :: string
  international_cycle_time_benchmark :: string
  domestic_rejection_rate_benchmark :: string
  international_rejection_rate_benchmark :: string
  benchmarks_implemented :: bool

record citation_info =
  agile_source_cited :: bool
  lean_methodology_basis :: string
  operating_model_sources :: string
  academic_sources_count :: nat

record methodology_info =
  multi_framework_approach :: bool
  integrated_analysis :: bool
  empirical_thresholds :: bool
  reproducible_methods :: bool
  validation_test_cases :: bool

record empirical_info =
  research_based_thresholds :: bool
  published_benchmark_alignment :: bool
  statistical_validation :: bool
  academic_standard_compliance :: bool

record research_results =
  bpi_challenge_benchmarks :: "benchmark_info option"
  framework_citations :: "citation_info option"
  methodology_rigor :: "methodology_info option"
  empirical_validation :: "empirical_info option"
  compliance_score :: real
  research_validation_error :: "string option"

definition check_benchmarks :: "aws \<Rightarrow> research_results \<Rightarrow> py_error + research_results" where
  "check_benchmarks env rr =
    ebind (get_object_json env ''workflow-optimization-data''
             ''validation_data/benchmark_examples.json'') (\<lambda>benchmark_data.
    ebind (ebind (py_get benchmark_data ''research_validation'' (JObj []))
             (py_contains ''bpi_challenge_alignment'')) (\<lambda>implemented.
      Inr (rr\<lparr>bpi_challenge_benchmarks :=
             Some \<lparr>domestic_cycle_time_benchmark = ''8-11 days'',
                   international_cycle_time_benchmark = ''66-86 days'',
                   domestic_rejection_rate_benchmark = ''12%'',
                   international_rejection_rate_benchmark = ''27%'',
                   benchmarks_implemented = implemented\<rparr>\<rparr>)))"

definition check_citations :: "aws \<Rightarrow> research_results \<Rightarrow> py_error + research_results" where
  "check_citations env rr =
    ebind (get_object_json env ''workflow-optimization-data''
             ''framework_knowledge/agile_framework_knowledge.json'') (\<lambda>agile_data.
    ebind (ebind (py_get agile_data ''metadata'' (JObj [])) (py_contains ''source'')) (\<lambda>cited.
      Inr (rr\<lparr>framework_citations :=
             Some \<lparr>agile_source_cited = cited,
                   lean_methodology_basis = ''Toyota Production System referenced'',
                   operating_model_sources = ''McKinsey framework referenced'',
                   academic_sources_count = 3\<rparr>\<rparr>)))"

definition set_methodology_rigor :: "research_results \<Rightarrow> py_error + research_results" where
  "set_methodology_rigor rr =
    Inr (rr\<lparr>methodology_rigor :=
           Some \<lparr>multi_framework_approach = True, integrated_analysis = True,
                 empirical_thresholds = True, reproducible_methods = True,
                 validation_test_cases = True\<rparr>\<rparr>)"

definition set_empirical_validation :: "research_results \<Rightarrow> py_error + research_results" where
  "set_empirical_validation rr =
    Inr (rr\<lparr>empirical_validation :=
           Some \<lparr>research_based_thresholds = True, published_benchmark_alignment = True,
                 statistical_validation = True, academic_standard_compliance = True\<rparr>\<rparr>)"

definition score_compliance :: "research_results \<Rightarrow> py_error + research_results" where
  "score_compliance rr =
    (case bpi_challenge_benchmarks rr of
       None \<Rightarrow> Inl (KeyError ''benchmarks_implemented'') | Some benchmarks \<Rightarrow>
     case framework_citations rr of
       None \<Rightarrow> Inl (KeyError ''agile_source_cited'') | Some citations \<Rightarrow>
     case methodology_rigor rr of
       None \<Rightarrow> Inl (KeyError ''multi_framework_approach'') | Some rigor \<Rightarrow>
     case empirical_validation rr of
       None \<Rightarrow> Inl (KeyError ''research_based_thresholds'')
     | Some empirical \<Rightarrow>
         (let compliance_criteria =
                [benchmarks_implemented benchmarks,
                 agile_source_cited citations,
                 multi_framework_approach rigor,
                 research_based_thresholds empirical]
          in
          ebind (py_truediv (real (count_true compliance_criteria))
                            (real (length compliance_criteria))) (\<lambda>share.
            Inr (rr\<lparr>compliance_score := share * 100\<rparr>))))"

definition validate_research_compliance :: "aws \<Rightarrow> research_results" where
  "validate_research_compliance env =
    (case run_try
            [check_benchmarks env, check_citations env, set_methodology_rigor,
             set_empirical_validation, score_compliance]
            \<lparr>bpi_challenge_benchmarks = None, framework_citations = None,
             methodology_rigor = None, empirical_validation = None, compliance_score = 0,
             research_validation_error = None\<rparr> of
       (rr, None) \<Rightarrow> rr
     | (rr, Some e) \<Rightarrow> rr\<lparr>research_validation_error := Some (error_str e)\<rparr>)"

subsection \<open>\<open>validate_system_configuration\<close>\<close>

record configuration_item =
  config_value :: string
  data_type :: string
  environment :: string

record config_results =
  configuration_items :: "(string \<times> configuration_item) list"
  valid_settings :: bool
  configuration_completeness :: real
  missing_configurations :: "string list option"
  config_validation_error :: "string option"

text \<open>\<open>item[name]['S']\<close> on an item of the table.\<close>

definition attribute_S :: "config_item \<Rightarrow> string \<Rightarrow> py_error + string" where
  "attribute_S item name = ebind (subscript item name) (\<lambda>attribute. subscript attribute ''S'')"

definition load_config_item ::
  "config_item \<Rightarrow> (string \<times> configuration_item) list
    \<Rightarrow> py_error + (string \<times> configuration_item) list" where
  "load_config_item item items =
    ebind (attribute_S item ''config_category'') (\<lambda>category.
    ebind (attribute_S item ''config_key'') (\<lambda>key.
    ebind (attribute_S item ''config_value'') (\<lambda>val.
      Inr (dict_set (category @ ''.'' @ key)
             \<lparr>config_value = val,
              data_type = dict_get (dict_get item ''data_type'' []) ''S'' ''string'',
              environment = dict_get (dict_get item ''environment'' []) ''S'' ''unknown''\<rparr>
             items))))"

definition required_configs :: "string list" where
  "required_configs =
    [''thresholds.max_processing_time'',
     ''quality.minimum_quality_score'',
     ''features.multi_agent_enabled'',
     ''bedrock.model_id'']"

definition score_configuration :: "config_results \<Rightarrow> py_error + config_results" where
  "score_configuration cr =
    (let existing_configs = map fst (configuration_items cr);
         missing_configs = filter (\<lambda>cfg. \<not> List.member existing_configs cfg) required_configs
     in
     ebind (py_truediv (real_of_int (int (length required_configs) - int (length missing_configs)))
                       (real (length required_configs))) (\<lambda>share.
       Inr (cr\<lparr>configuration_completeness := share * 100,
               missing_configurations := Some missing_configs\<rparr>)))"

definition validate_system_configuration :: "aws \<Rightarrow> config_results" where
  "validate_system_configuration env =
    (let config_results =
           \<lparr>configuration_items = [], valid_settings = True, configuration_completeness = 0,
            missing_configurations = None, config_validation_error = None\<rparr>
     in
     case (case scan env ''system-configuration'' of
             Inl e \<Rightarrow> (config_results, Some e)
           | Inr config_items \<Rightarrow>
               run_try
                 (map (\<lambda>item cr.
                         ebind (load_config_item item (configuration_items cr)) (\<lambda>items.
                           Inr (cr\<lparr>configuration_items := items\<rparr>)))
                      config_items
                  @ [score_configuration])
                 config_results) of
       (cr, None) \<Rightarrow> cr
     | (cr, Some e) \<Rightarrow>
         cr\<lparr>config_validation_error := Some (error_str e), valid_settings := False\<rparr>)"

subsection \<open>\<open>calculate_overall_score\<close> and \<open>run_full_validation\<close>\<close>

text \<open>
  \<open>self.results\<close>. A category that is still the empty \<open>{}\<close> of the initial value is
  \<open>None\<close>, and so is \<open>component_scores\<close> before the score is computed. The time stamp and
  the two categories no method fills are left out.
\<close>

record validation_results =
  infrastructure :: "infrastructure_results option"
  data_validation :: "data_results option"
  framework_knowledge :: "framework_results option"
  research_compliance :: "research_results option"
  overall_score :: real
  component_scores :: "(string \<times> real) list option"
  validation_error :: "string option"

definition calculate_overall_score :: "validation_results \<Rightarrow> validation_results" where
  "calculate_overall_score results =
    (let infra = infrastructure results;
         tables_active =
           (case infra of
              None \<Rightarrow> 0
            | Some i \<Rightarrow> length (filter (\<lambda>table. table) (map snd (dynamodb_tables i))));
         infra_score =
           (if (case infra of None \<Rightarrow> False | Some i \<Rightarrow> s3_bucket i) then 25 else 0)
           + (real tables_active / 4) * 50
           + (if (case infra of None \<Rightarrow> False | Some i \<Rightarrow> bedrock_access i) then 25 else 0);
         data_score =
           (case data_validation results of None \<Rightarrow> 0 | Some d \<Rightarrow> data_quality_score d);
         framework_score =
           (case framework_knowledge results of
              None \<Rightarrow> 0
            | Some f \<Rightarrow> knowledge_completeness_score f);
         research_score =
           (case research_compliance results of None \<Rightarrow> 0 | Some r \<Rightarrow> compliance_score r);
         scores =
           [(''Infrastructure'', infra_score, 25 / 100),
            (''Data Quality'', data_score, 20 / 100),
            (''Framework Knowledge'', framework_score, 25 / 100),
            (''Research Compliance'', research_score, 30 / 100)];
         overall = foldl (\<lambda>total (name, score, weight). total + score * weight) 0 scores
     in
     results\<lparr>overall_score := overall,
             component_scores := Some (map (\<lambda>(name, score, weight). (name, score)) scores)\<rparr>)"

definition initial_results :: validation_results where
  "initial_results =
    \<lparr>infrastructure = None, data_validation = None, framework_knowledge = None,
     research_compliance = None, overall_score = 0, component_scores = None,
     validation_error = None\<rparr>"

text \<open>
  \<open>run_full_validation\<close>: the five validations and the score inside one \<open>try\<close>. The
  result of \<open>validate_system_configuration\<close> is dropped, as in the source.
\<close>

definition run_full_validation :: "aws \<Rightarrow> validation_results" where
  "run_full_validation env =
    (case run_try
            [\<lambda>results. Inr (results\<lparr>infrastructure := Some (validate_infrastructure env)\<rparr>),
             \<lambda>results. ebind (validate_data_completeness env) (\<lambda>data.
                          Inr (results\<lparr>data_validation := Some data\<rparr>)),
             \<lambda>results. Inr (results\<lparr>framework_knowledge :=
                                      Some (validate_framework_knowledge env)\<rparr>),
             \<lambda>results. Inr (results\<lparr>research_compliance :=
                                      Some (validate_research_compliance env)\<rparr>),
             \<lambda>results. (case validate_system_configuration env of config \<Rightarrow> Inr results),
             \<lambda>results. Inr (calculate_overall_score results)]
            initial_results of
       (results, None) \<Rightarrow> results
     | (results, Some e) \<Rightarrow> results\<lparr>validation_error := Some (error_str e)\<rparr>)"

subsection \<open>\<open>main\<close>\<close>


text \<open>
  What \<open>main\<close> meets outside the validator, each of it able to raise: the construction
  of the four clients for a region by \<open>SystemValidator(region)\<close>, which gives the answers
  of the services; opening and writing a file; and printing the report to the standard
  output. The text written is not modelled.
\<close>

record host =
  connect :: "string \<Rightarrow> py_error + aws"
  write_file :: "string \<Rightarrow> py_error + unit"
  print_report :: "py_error + unit"





section \<open>Two example deployments\<close>

text \<open>
  A deployment in which every artifact is present, with knowledge documents of the
  shape the validator counts, and one in which no service can be reached.
\<close>

definition agile_document :: json where
  "agile_document =
    JObj [(''metadata'', JObj [(''source'', JStr ''Agile Manifesto'')]),
          (''core_values'', JArr (replicate 4 (JObj []))),
          (''twelve_principles'', JArr (replicate 12 (JObj []))),
          (''agile_detection_rules'', JArr [])]"

definition lean_document :: json where
  "lean_document =
    JObj [(''seven_wastes'', JArr (replicate 7 (JObj []))),
          (''five_lean_principles'', JArr (replicate 5 (JObj []))),
          (''lean_waste_detection_rules'', JArr [])]"

definition operating_model_document :: json where
  "operating_model_document =
    JObj [(''mckinsey_organize_to_value'', JObj [(''elements'', JArr (replicate 5 (JObj [])))]),
          (''operating_model_violations'', JArr []),
          (''optimization_patterns'', JObj [])]"

definition integration_document :: json where
  "integration_document =
    JObj [(''integrated_optimization_recommendations'',
             JObj [(''high_rejection_rate'', JObj []), (''approval_bottleneck'', JObj []),
                   (''excessive_handoffs'', JObj []), (''long_cycle_time'', JObj []),
                   (''rework_loops'', JObj [])]),
          (''framework_synergies'', JObj []),
          (''comprehensive_detection_framework'', JObj [])]"

definition benchmark_document :: json where
  "benchmark_document =
    JObj [(''research_validation'', JObj [(''bpi_challenge_alignment'', JBool True)])]"

definition healthy :: aws where
  "healthy =
    \<lparr>head_bucket = (\<lambda>bucket. Inr ()),
     describe_table = (\<lambda>table_name. Inr ''ACTIVE''),
     list_foundation_models = Inr [''anthropic.claude-3-5-sonnet-20240620-v1:0''],
     head_object =
       (\<lambda>bucket key. Inr \<lparr>ContentLength = 1024, LastModified = Some ''2025-01-01T00:00:00''\<rparr>),
     get_object_json =
       (\<lambda>bucket key.
          if key = ''framework_knowledge/agile_framework_knowledge.json'' then Inr agile_document
          else if key = ''framework_knowledge/lean_framework_knowledge.json'' then Inr lean_document
          else if key = ''framework_knowledge/operating_model_knowledge.json''
            then Inr operating_model_document
          else if key = ''framework_knowledge/integrated_optimization_rules.json''
            then Inr integration_document
          else if key = ''validation_data/benchmark_examples.json'' then Inr benchmark_document
          else Inl (ServiceError ''NoSuchKey'')),
     scan = (\<lambda>table_name. Inr [])\<rparr>"

definition offline :: aws where
  "offline =
    \<lparr>head_bucket = (\<lambda>bucket. Inl (ServiceError ''EndpointConnectionError'')),
     describe_table = (\<lambda>table_name. Inl (ServiceError ''EndpointConnectionError'')),
     list_foundation_models = Inl (ServiceError ''EndpointConnectionError''),
     head_object = (\<lambda>bucket key. Inl (ServiceError ''EndpointConnectionError'')),
     get_object_json = (\<lambda>bucket key. Inl (ServiceError ''EndpointConnectionError'')),
     scan = (\<lambda>table_name. Inl (ServiceError ''EndpointConnectionError''))\<rparr>"



definition offline_host :: host where
  "offline_host =
    \<lparr>connect = (\<lambda>region_name. Inr offline),
     write_file = (\<lambda>path. Inr ()),
     print_report = Inr ()\<rparr>"


section \<open>Properties of the labeler\<close>

subsection \<open>Table lookups and the four rule blocks\<close>

lemma thresholds_at:
  "subscript thresholds ''international_excessive_duration'' = Inr 150"
  "subscript thresholds ''domestic_excessive_duration'' = Inr 20"
  "subscript thresholds ''international_normal_duration'' = Inr 86"
  "subscript thresholds ''domestic_normal_duration'' = Inr 11"
  "subscript thresholds ''supervisor_approval_bottleneck'' = Inr 30"
  "subscript thresholds ''excessive_rejections'' = Inr 2"
  by (simp_all add: subscript_def thresholds_def)

lemma framework_mappings_at:
  "subscript framework_mappings ''excessive_duration'' =
     Inr \<lparr>lean_waste = ''waiting'',
          agile_principle = ''deliver_working_software_frequently'',
          optimization = ''streamline_approval_process''\<rparr>"
  "subscript framework_mappings ''supervisor_approval_bottleneck'' =
     Inr \<lparr>lean_waste = ''waiting'',
          agile_principle = ''working_software_over_documentation'',
          optimization = ''increase_supervisors_or_delegation''\<rparr>"
  "subscript framework_mappings ''excessive_rejections'' =
     Inr \<lparr>lean_waste = ''defects'',
          agile_principle = ''working_software_over_documentation'',
          optimization = ''implement_pre_validation_checks''\<rparr>"
  by (simp_all add: subscript_def framework_mappings_def)

lemma ebind_Inr [simp]: "ebind (Inr v) f = f v"
  by (simp add: ebind_def)

lemma ebind_Inl [simp]: "ebind (Inl e) f = Inl e"
  by (simp add: ebind_def)

lemma duration_block_quiet:
  "duration \<le> (if is_intl then 150 else 20) \<Longrightarrow> duration_block duration is_intl st = Inr st"
  by (cases st) (auto simp add: duration_block_def thresholds_at split: if_splits)

lemma approval_block_quiet:
  "approval = None \<or> (\<exists>a. approval = Some a \<and> a \<le> 30) \<Longrightarrow> approval_block approval st = Inr st"
  by (cases st) (auto simp add: approval_block_def thresholds_at)

lemma rejection_block_quiet:
  "rejections \<le> 2 \<Longrightarrow> rejection_block rejections is_intl st = Inr st"
  by (cases st) (simp add: rejection_block_def thresholds_at)

lemma complexity_block_quiet:
  "activities \<le> 20 \<Longrightarrow> complexity_block activities st = Inr st"
  by (cases st) (simp add: complexity_block_def)

text \<open>Each block appends a list of findings and adds a number of points, both independent of the state.\<close>

lemma duration_block_appends:
  "\<exists>fs n. duration_block duration is_intl ([], 0) = Inr (fs, n)
     \<and> (\<forall>labels score. duration_block duration is_intl (labels, score) = Inr (labels @ fs, score + n))
     \<and> (\<forall>f \<in> set fs. type f = ''excessive_duration_international'' \<or> type f = ''excessive_duration_domestic'')"
  by (simp add: duration_block_def thresholds_at framework_mappings_at)

lemma rejection_block_appends:
  "\<exists>fs n. rejection_block rejections is_intl ([], 0) = Inr (fs, n)
     \<and> (\<forall>labels score. rejection_block rejections is_intl (labels, score) = Inr (labels @ fs, score + n))
     \<and> (\<forall>f \<in> set fs. type f = ''excessive_rejections'')"
  by (simp add: rejection_block_def thresholds_at framework_mappings_at Let_def)

lemma complexity_block_appends:
  "\<exists>fs n. complexity_block activities ([], 0) = Inr (fs, n)
     \<and> (\<forall>labels score. complexity_block activities (labels, score) = Inr (labels @ fs, score + n))
     \<and> (\<forall>f \<in> set fs. type f = ''process_complexity'')"
  by (simp add: complexity_block_def)

lemma approval_block_fires:
  "30 < a \<Longrightarrow>
   approval_block (Some a) (labels, score) =
     Inr (labels @
          [\<lparr>type = ''supervisor_approval_bottleneck'',
            severity = (if a > 50 then ''high'' else ''medium''),
            actual_value = a,
            expected_range = None,
            expected_value = Some ''3-5 days'',
            expected_rate = None,
            research_finding = Some ''39 days average (45.3% of total process time)'',
            framework_violation =
              \<lparr>lean_waste = ''waiting'',
               agile_principle = ''working_software_over_documentation'',
               optimization = ''increase_supervisors_or_delegation''\<rparr>\<rparr>],
          score + 3)"
  by (simp add: approval_block_def thresholds_at framework_mappings_at)

lemma approval_block_appends:
  "\<exists>fs n. approval_block approval ([], 0) = Inr (fs, n)
     \<and> (\<forall>labels score. approval_block approval (labels, score) = Inr (labels @ fs, score + n))
     \<and> (\<forall>f \<in> set fs. type f = ''supervisor_approval_bottleneck'')"
  by (cases approval) (simp_all add: approval_block_def thresholds_at framework_mappings_at)

lemma improvement_loop_sum:
  "improvement_loop acc fs = acc + sum_list (map (\<lambda>f. type_potential (type f)) fs)"
  by (induction fs arbitrary: acc) simp_all

lemma type_potential_nonneg: "0 \<le> type_potential t"
  by (simp add: type_potential_def)

lemma potential_sum_nonneg: "0 \<le> sum_list (map (\<lambda>f. type_potential (type f)) fs)"
  by (rule sum_list_nonneg) (auto simp add: type_potential_nonneg)

lemma label_case_inefficiencies_shape:
  "\<exists>ds nd as na rs nr cs nc.
     duration_block (get_or (total_duration_days cf) 0) (get_or (is_international cf) False) ([], 0)
       = Inr (ds, nd)
   \<and> approval_block (approval_time_days cf) ([], 0) = Inr (as, na)
   \<and> rejection_block (get_or (rejection_count cf) 0) (get_or (is_international cf) False) ([], 0)
       = Inr (rs, nr)
   \<and> complexity_block (get_or (activity_count cf) 0) ([], 0) = Inr (cs, nc)
   \<and> (\<forall>f \<in> set ds. type f = ''excessive_duration_international''
                     \<or> type f = ''excessive_duration_domestic'')
   \<and> (\<forall>f \<in> set as. type f = ''supervisor_approval_bottleneck'')
   \<and> (\<forall>f \<in> set rs. type f = ''excessive_rejections'')
   \<and> (\<forall>f \<in> set cs. type f = ''process_complexity'')
   \<and> label_case_inefficiencies cf =
         Inr \<lparr>inefficiencies = ds @ as @ rs @ cs,
              severity_score = nd + na + nr + nc,
              total_inefficiency_count = length (ds @ as @ rs @ cs),
              optimization_potential = calculate_optimization_potential (ds @ as @ rs @ cs)\<rparr>"
proof -
  obtain ds nd where d:
    "duration_block (get_or (total_duration_days cf) 0) (get_or (is_international cf) False) ([], 0)
       = Inr (ds, nd)"
    "\<And>labels score. duration_block (get_or (total_duration_days cf) 0)
        (get_or (is_international cf) False) (labels, score) = Inr (labels @ ds, score + nd)"
    "\<forall>f \<in> set ds. type f = ''excessive_duration_international''
                     \<or> type f = ''excessive_duration_domestic''"
    using duration_block_appends by blast
  obtain as na where a:
    "approval_block (approval_time_days cf) ([], 0) = Inr (as, na)"
    "\<And>labels score. approval_block (approval_time_days cf) (labels, score)
        = Inr (labels @ as, score + na)"
    "\<forall>f \<in> set as. type f = ''supervisor_approval_bottleneck''"
    using approval_block_appends by blast
  obtain rs nr where r:
    "rejection_block (get_or (rejection_count cf) 0) (get_or (is_international cf) False) ([], 0)
       = Inr (rs, nr)"
    "\<And>labels score. rejection_block (get_or (rejection_count cf) 0)
        (get_or (is_international cf) False) (labels, score) = Inr (labels @ rs, score + nr)"
    "\<forall>f \<in> set rs. type f = ''excessive_rejections''"
    using rejection_block_appends by blast
  obtain cs nc where c:
    "complexity_block (get_or (activity_count cf) 0) ([], 0) = Inr (cs, nc)"
    "\<And>labels score. complexity_block (get_or (activity_count cf) 0) (labels, score)
        = Inr (labels @ cs, score + nc)"
    "\<forall>f \<in> set cs. type f = ''process_complexity''"
    using complexity_block_appends by blast
  have "label_case_inefficiencies cf =
         Inr \<lparr>inefficiencies = ds @ as @ rs @ cs,
              severity_score = nd + na + nr + nc,
              total_inefficiency_count = length (ds @ as @ rs @ cs),
              optimization_potential = calculate_optimization_potential (ds @ as @ rs @ cs)\<rparr>"
    unfolding label_case_inefficiencies_def Let_def
    by (simp add: d(1) a(2) r(2) c(2))
  with d(1,3) a(1,3) r(1,3) c(1,3) show ?thesis by blast
qed

subsection \<open>Cases without a threshold violation\<close>

text \<open>
  Claim C1. Take any case features whose duration (0 when the key is missing) is at most
  the normal-range ceiling of the threshold table for its \<open>is_international\<close> flag (86
  days international, 11 days domestic), whose approval time is absent or at most 30,
  whose rejection count is at most 2 and whose activity count is at most 20. Then
  \<open>label_case_inefficiencies\<close> returns, without raising, the empty list of findings,
  severity score 0 and optimization potential 0.
\<close>

theorem no_violation_no_findings:
  assumes normal_ceiling:
    "subscript thresholds
       (if get_or (is_international cf) False then ''international_normal_duration''
        else ''domestic_normal_duration'') = Inr normal_ceiling"
    and duration: "get_or (total_duration_days cf) 0 \<le> normal_ceiling"
    and approval: "approval_time_days cf = None \<or> (\<exists>a. approval_time_days cf = Some a \<and> a \<le> 30)"
    and rejections: "get_or (rejection_count cf) 0 \<le> 2"
    and activities: "get_or (activity_count cf) 0 \<le> 20"
  shows "label_case_inefficiencies cf =
           Inr \<lparr>inefficiencies = [], severity_score = 0,
                total_inefficiency_count = 0, optimization_potential = 0\<rparr>"
proof -
  have "get_or (total_duration_days cf) 0
          \<le> (if get_or (is_international cf) False then 150 else 20)"
    using normal_ceiling duration by (auto simp add: thresholds_at split: if_splits)
  then have d: "duration_block (get_or (total_duration_days cf) 0)
                  (get_or (is_international cf) False) ([], 0) = Inr ([], 0)"
    by (rule duration_block_quiet)
  have a: "approval_block (approval_time_days cf) ([], 0) = Inr ([], 0)"
    using approval by (rule approval_block_quiet)
  have r: "rejection_block (get_or (rejection_count cf) 0)
             (get_or (is_international cf) False) ([], 0) = Inr ([], 0)"
    using rejections by (rule rejection_block_quiet)
  have c: "complexity_block (get_or (activity_count cf) 0) ([], 0) = Inr ([], 0)"
    using activities by (rule complexity_block_quiet)
  show ?thesis
    unfolding label_case_inefficiencies_def Let_def
    by (simp add: d a r c calculate_optimization_potential_def)
qed

theorem no_violation_no_findings_witness:
  "label_case_inefficiencies
     \<lparr>case_id = ''case 1'', total_duration_days = Some 10, activity_count = Some 12,
      unique_activities = Some 6, has_rejections = Some True, rejection_count = Some 2,
      is_international = Some False, approval_time_days = Some 30\<rparr>
   = Inr \<lparr>inefficiencies = [], severity_score = 0,
          total_inefficiency_count = 0, optimization_potential = 0\<rparr>"
  by (rule no_violation_no_findings [where normal_ceiling = 11]) (simp_all add: thresholds_at)

subsection \<open>The optimization potential\<close>

text \<open>
  Claim C2. For every list of findings, \<open>_calculate_optimization_potential\<close> returns a
  value between 0 and 80, and inserting one more finding anywhere in the list (at the end
  in particular, where the labeler appends) never lowers the value. The labeler stores
  exactly this value for the list of findings it returns.
\<close>

theorem optimization_potential_bounded_monotone:
  "0 \<le> calculate_optimization_potential fs
   \<and> calculate_optimization_potential fs \<le> 80
   \<and> calculate_optimization_potential (xs @ ys) \<le> calculate_optimization_potential (xs @ f # ys)
   \<and> (\<exists>r. label_case_inefficiencies cf = Inr r
          \<and> optimization_potential r = calculate_optimization_potential (inefficiencies r))"
proof -
  have nonneg: "0 \<le> calculate_optimization_potential fs"
    using potential_sum_nonneg [of fs]
    by (simp add: calculate_optimization_potential_def improvement_loop_sum)
  have cap: "calculate_optimization_potential fs \<le> 80"
    by (simp add: calculate_optimization_potential_def)
  have loop: "improvement_loop 0 (xs @ ys) \<le> improvement_loop 0 (xs @ f # ys)"
    by (simp add: improvement_loop_sum type_potential_nonneg)
  have mono: "calculate_optimization_potential (xs @ ys)
                \<le> calculate_optimization_potential (xs @ f # ys)"
  proof (cases "xs @ ys = []")
    case True
    have "0 \<le> improvement_loop 0 (xs @ f # ys)"
      using potential_sum_nonneg [of "xs @ f # ys"] by (simp only: improvement_loop_sum)
    with True show ?thesis by (simp add: calculate_optimization_potential_def)
  next
    case False
    have "min (improvement_loop 0 (xs @ ys)) 80 \<le> min (improvement_loop 0 (xs @ f # ys)) 80"
      using loop by (rule min.mono) simp
    with False show ?thesis
      by (simp add: calculate_optimization_potential_def type_potential_nonneg)
  qed
  have "\<exists>r. label_case_inefficiencies cf = Inr r
          \<and> optimization_potential r = calculate_optimization_potential (inefficiencies r)"
    using label_case_inefficiencies_shape [of cf] by auto
  with nonneg cap mono show ?thesis by blast
qed

subsection \<open>The severity level\<close>

lemma label_row_total: "\<exists>labeled. label_row cf = Inr labeled"
  using label_case_inefficiencies_shape [of cf] by (auto simp add: label_row_def)

text \<open>
  Claim C3. For every severity score that is not negative, the level is \<open>high\<close> exactly
  when the score is at least 5, \<open>medium\<close> exactly when it is at least 2 and below 5, and
  \<open>low\<close> exactly in the remaining case; and the \<open>severity_level\<close> that \<open>label_dataset\<close>
  stores for a row is this function of the row's severity score.
\<close>

theorem severity_level_buckets:
  "(0 \<le> score \<longrightarrow>
      (severity_level_of score = ''high'' \<longleftrightarrow> 5 \<le> score)
    \<and> (severity_level_of score = ''medium'' \<longleftrightarrow> 2 \<le> score \<and> score < 5)
    \<and> (severity_level_of score = ''low'' \<longleftrightarrow> \<not> 5 \<le> score \<and> \<not> (2 \<le> score \<and> score < 5)))
   \<and> (label_row cf = Inr labeled \<longrightarrow>
        severity_level (training labeled)
          = severity_level_of (severity_score (inefficiency_labels labeled)))"
  by (auto simp add: severity_level_of_def label_row_def ebind_def split: sum.splits)

theorem severity_level_buckets_witness:
  "severity_level_of 3 = ''medium''
   \<and> (\<exists>labeled.
        label_row \<lparr>case_id = ''case 3'', total_duration_days = Some 25, activity_count = Some 22,
          unique_activities = Some 8, has_rejections = Some False, rejection_count = Some 0,
          is_international = Some False, approval_time_days = None\<rparr> = Inr labeled
      \<and> severity_level (training labeled)
          = severity_level_of (severity_score (inefficiency_labels labeled)))"
proof -
  let ?c3 = "\<lparr>case_id = ''case 3'', total_duration_days = Some (25::real),
          activity_count = Some 22, unique_activities = Some 8, has_rejections = Some False,
          rejection_count = Some 0, is_international = Some False,
          approval_time_days = None\<rparr>"
  obtain labeled where row: "label_row ?c3 = Inr labeled"
    using label_row_total [of ?c3] by blast
  have score: "(0::int) \<le> 3"
    by simp
  from severity_level_buckets [of 3 ?c3 labeled, THEN conjunct1, THEN mp, OF score]
  have "severity_level_of 3 = ''medium''"
    by simp
  moreover from severity_level_buckets [of 3 ?c3 labeled, THEN conjunct2, THEN mp, OF row]
  have "severity_level (training labeled)
          = severity_level_of (severity_score (inefficiency_labels labeled))" .
  ultimately show ?thesis
    using row by blast
qed

subsection \<open>The international scenario\<close>

text \<open>
  Claim C4. For any row with \<open>is_international\<close> true, \<open>total_duration_days\<close> 220,
  \<open>approval_time_days\<close> 60, \<open>rejection_count\<close> 4 and \<open>activity_count\<close> 25, the labeler
  returns exactly four findings, in this order: \<open>excessive_duration_international\<close> (high),
  \<open>supervisor_approval_bottleneck\<close> (high), \<open>excessive_rejections\<close> (high) and
  \<open>process_complexity\<close> (medium). The severity score is 9, the severity level \<open>high\<close>, the
  uncapped sum is 30 + 45.3 + 20 + 15 and the optimization potential is the cap, 80.
\<close>

theorem international_scenario:
  "\<exists>labeled.
     label_row (cf\<lparr>is_international := Some True, total_duration_days := Some 220,
                   approval_time_days := Some 60, rejection_count := Some 4,
                   activity_count := Some 25\<rparr>) = Inr labeled
   \<and> map (\<lambda>f. (type f, severity f)) (inefficiencies (inefficiency_labels labeled)) =
       [(''excessive_duration_international'', ''high''),
        (''supervisor_approval_bottleneck'', ''high''),
        (''excessive_rejections'', ''high''),
        (''process_complexity'', ''medium'')]
   \<and> severity_score (inefficiency_labels labeled) = 9
   \<and> severity_level (training labeled) = ''high''
   \<and> improvement_loop 0 (inefficiencies (inefficiency_labels labeled)) = 30 + 453 / 10 + 20 + 15
   \<and> optimization_potential (inefficiency_labels labeled) = 80
   \<and> optimization_potential_percent (training labeled) = 80"
  by (simp add: label_row_def label_case_inefficiencies_def duration_block_def
      approval_block_def rejection_block_def complexity_block_def thresholds_at
      framework_mappings_at calculate_optimization_potential_def type_potential_def
      severity_level_of_def Let_def)

subsection \<open>The recommendation tables\<close>

text \<open>
  Claim C6 fails as stated: \<open>late_submission\<close> is not one of the six finding types, and
  both tables have an entry for it, so neither lookup returns its default.
\<close>

theorem recommendation_lookup_counterexample:
  "''late_submission'' \<notin> {''excessive_duration_domestic'', ''excessive_duration_international'',
       ''supervisor_approval_bottleneck'', ''director_approval_bottleneck'',
       ''excessive_rejections'', ''process_complexity''}
   \<and> get_recommendation ''late_submission'' \<noteq> ''Review and optimize process flow''
   \<and> get_expected_improvement ''late_submission'' \<noteq> ''10-20% general improvement''"
  by (simp add: get_recommendation_def get_expected_improvement_def dict_get_def
      recommendations_def improvements_def)

text \<open>
  Claim C6, amended. For each of the six finding types both lookups return a text that is
  not empty. For every type that is none of the six and is not \<open>late_submission\<close>, the
  lookups return the defaults \<open>Review and optimize process flow\<close> and
  \<open>10-20% general improvement\<close>.
\<close>

theorem recommendation_lookup:
  "(t \<in> {''excessive_duration_domestic'', ''excessive_duration_international'',
         ''supervisor_approval_bottleneck'', ''director_approval_bottleneck'',
         ''excessive_rejections'', ''process_complexity''} \<longrightarrow>
      get_recommendation t \<noteq> [] \<and> get_expected_improvement t \<noteq> [])
   \<and> (t \<notin> {''excessive_duration_domestic'', ''excessive_duration_international'',
         ''supervisor_approval_bottleneck'', ''director_approval_bottleneck'',
         ''excessive_rejections'', ''process_complexity''} \<and> t \<noteq> ''late_submission'' \<longrightarrow>
      get_recommendation t = ''Review and optimize process flow''
      \<and> get_expected_improvement t = ''10-20% general improvement'')"
proof (intro conjI impI)
  assume "t \<in> {''excessive_duration_domestic'', ''excessive_duration_international'',
         ''supervisor_approval_bottleneck'', ''director_approval_bottleneck'',
         ''excessive_rejections'', ''process_complexity''}"
  then show "get_recommendation t \<noteq> []" "get_expected_improvement t \<noteq> []"
    by (auto simp add: get_recommendation_def get_expected_improvement_def dict_get_def
        recommendations_def improvements_def)
next
  assume out: "t \<notin> {''excessive_duration_domestic'', ''excessive_duration_international'',
         ''supervisor_approval_bottleneck'', ''director_approval_bottleneck'',
         ''excessive_rejections'', ''process_complexity''} \<and> t \<noteq> ''late_submission''"
  then have "map_of recommendations t = None" "map_of improvements t = None"
    by (simp_all add: recommendations_def improvements_def)
  then show "get_recommendation t = ''Review and optimize process flow''"
    "get_expected_improvement t = ''10-20% general improvement''"
    by (simp_all add: get_recommendation_def get_expected_improvement_def dict_get_def)
qed

theorem recommendation_lookup_witness:
  "get_recommendation ''process_complexity'' \<noteq> []
   \<and> get_expected_improvement ''process_complexity'' \<noteq> []
   \<and> get_recommendation ''budget_overrun'' = ''Review and optimize process flow''
   \<and> get_expected_improvement ''budget_overrun'' = ''10-20% general improvement''"
  using recommendation_lookup [of "''process_complexity''"]
    recommendation_lookup [of "''budget_overrun''"]
  by simp

subsection \<open>The approval rule\<close>

lemma filter_other_type:
  "\<forall>f \<in> set fs. type f = t \<or> type f = t' \<Longrightarrow> t \<noteq> u \<Longrightarrow> t' \<noteq> u \<Longrightarrow>
   filter (\<lambda>f. type f = u) fs = []"
  by (induction fs) auto

text \<open>
  Claim C7. If \<open>approval_time_days\<close> is present and greater than 30, the labeler returns
  exactly one finding of type \<open>supervisor_approval_bottleneck\<close>; its severity is \<open>high\<close>
  when the approval time is above 50 and \<open>medium\<close> otherwise, and the severity score is
  3 more than the score of the same features without an approval time, in both cases. If
  \<open>approval_time_days\<close> is absent or at most 30, the labeler returns no such finding.
\<close>

theorem approval_rule:
  "(approval_time_days cf = Some a \<and> 30 < a \<longrightarrow>
      (\<exists>r r0 f.
         label_case_inefficiencies cf = Inr r
       \<and> label_case_inefficiencies (cf\<lparr>approval_time_days := None\<rparr>) = Inr r0
       \<and> filter (\<lambda>f. type f = ''supervisor_approval_bottleneck'') (inefficiencies r) = [f]
       \<and> severity f = (if 50 < a then ''high'' else ''medium'')
       \<and> severity_score r = severity_score r0 + 3
       \<and> filter (\<lambda>f. type f = ''supervisor_approval_bottleneck'') (inefficiencies r0) = []))
   \<and> (approval_time_days cf = None \<or> (approval_time_days cf = Some a \<and> a \<le> 30) \<longrightarrow>
      (\<exists>r. label_case_inefficiencies cf = Inr r
       \<and> filter (\<lambda>f. type f = ''supervisor_approval_bottleneck'') (inefficiencies r) = []))"
proof -
  let ?sup = "filter (\<lambda>f. type f = ''supervisor_approval_bottleneck'')"
  obtain ds nd as na rs nr cs nc where shape:
    "approval_block (approval_time_days cf) ([], 0) = Inr (as, na)"
    "\<forall>f \<in> set ds. type f = ''excessive_duration_international''
                     \<or> type f = ''excessive_duration_domestic''"
    "\<forall>f \<in> set rs. type f = ''excessive_rejections''"
    "\<forall>f \<in> set cs. type f = ''process_complexity''"
    "label_case_inefficiencies cf =
       Inr \<lparr>inefficiencies = ds @ as @ rs @ cs,
            severity_score = nd + na + nr + nc,
            total_inefficiency_count = length (ds @ as @ rs @ cs),
            optimization_potential = calculate_optimization_potential (ds @ as @ rs @ cs)\<rparr>"
    and blocks:
    "duration_block (get_or (total_duration_days cf) 0) (get_or (is_international cf) False) ([], 0)
       = Inr (ds, nd)"
    "rejection_block (get_or (rejection_count cf) 0) (get_or (is_international cf) False) ([], 0)
       = Inr (rs, nr)"
    "complexity_block (get_or (activity_count cf) 0) ([], 0) = Inr (cs, nc)"
    using label_case_inefficiencies_shape [of cf] by blast
  have ds: "?sup ds = []"
    using shape(2) by (rule filter_other_type) simp_all
  have rs: "?sup rs = []"
    using shape(3) by (intro filter_other_type [where t = "''excessive_rejections''"
        and t' = "''excessive_rejections''"]) simp_all
  have cs: "?sup cs = []"
    using shape(4) by (intro filter_other_type [where t = "''process_complexity''"
        and t' = "''process_complexity''"]) simp_all
  obtain ds' nd' as' na' rs' nr' cs' nc' where shape0:
    "approval_block (approval_time_days (cf\<lparr>approval_time_days := None\<rparr>)) ([], 0) = Inr (as', na')"
    "label_case_inefficiencies (cf\<lparr>approval_time_days := None\<rparr>) =
       Inr \<lparr>inefficiencies = ds' @ as' @ rs' @ cs',
            severity_score = nd' + na' + nr' + nc',
            total_inefficiency_count = length (ds' @ as' @ rs' @ cs'),
            optimization_potential = calculate_optimization_potential (ds' @ as' @ rs' @ cs')\<rparr>"
    and blocks0:
    "duration_block (get_or (total_duration_days (cf\<lparr>approval_time_days := None\<rparr>)) 0)
       (get_or (is_international (cf\<lparr>approval_time_days := None\<rparr>)) False) ([], 0) = Inr (ds', nd')"
    "rejection_block (get_or (rejection_count (cf\<lparr>approval_time_days := None\<rparr>)) 0)
       (get_or (is_international (cf\<lparr>approval_time_days := None\<rparr>)) False) ([], 0) = Inr (rs', nr')"
    "complexity_block (get_or (activity_count (cf\<lparr>approval_time_days := None\<rparr>)) 0) ([], 0)
       = Inr (cs', nc')"
    using label_case_inefficiencies_shape [of "cf\<lparr>approval_time_days := None\<rparr>"] by blast
  have same: "ds' = ds" "nd' = nd" "rs' = rs" "nr' = nr" "cs' = cs" "nc' = nc"
    using blocks blocks0 by simp_all
  have none: "as' = []" "na' = 0"
    using shape0(1) by (simp_all add: approval_block_def)
  show ?thesis
  proof (intro conjI impI)
    assume fires: "approval_time_days cf = Some a \<and> 30 < a"
    then have "approval_block (approval_time_days cf) ([], 0) =
      Inr ([] @ [\<lparr>type = ''supervisor_approval_bottleneck'',
            severity = (if a > 50 then ''high'' else ''medium''),
            actual_value = a,
            expected_range = None,
            expected_value = Some ''3-5 days'',
            expected_rate = None,
            research_finding = Some ''39 days average (45.3% of total process time)'',
            framework_violation =
              \<lparr>lean_waste = ''waiting'',
               agile_principle = ''working_software_over_documentation'',
               optimization = ''increase_supervisors_or_delegation''\<rparr>\<rparr>], 0 + 3)"
      by (simp only: approval_block_fires)
    with shape(1) have fired: "as = [\<lparr>type = ''supervisor_approval_bottleneck'',
            severity = (if a > 50 then ''high'' else ''medium''),
            actual_value = a,
            expected_range = None,
            expected_value = Some ''3-5 days'',
            expected_rate = None,
            research_finding = Some ''39 days average (45.3% of total process time)'',
            framework_violation =
              \<lparr>lean_waste = ''waiting'',
               agile_principle = ''working_software_over_documentation'',
               optimization = ''increase_supervisors_or_delegation''\<rparr>\<rparr>]" "na = 3"
      by simp_all
    show "\<exists>r r0 f.
         label_case_inefficiencies cf = Inr r
       \<and> label_case_inefficiencies (cf\<lparr>approval_time_days := None\<rparr>) = Inr r0
       \<and> ?sup (inefficiencies r) = [f]
       \<and> severity f = (if 50 < a then ''high'' else ''medium'')
       \<and> severity_score r = severity_score r0 + 3
       \<and> ?sup (inefficiencies r0) = []"
      using shape(5) shape0(2) fired ds rs cs same none by simp
  next
    assume quiet: "approval_time_days cf = None \<or> (approval_time_days cf = Some a \<and> a \<le> 30)"
    then have "approval_block (approval_time_days cf) ([], 0) = Inr ([], 0)"
      by (intro approval_block_quiet) auto
    with shape(1) have "as = []" by simp
    then show "\<exists>r. label_case_inefficiencies cf = Inr r \<and> ?sup (inefficiencies r) = []"
      using shape(5) ds rs cs by simp
  qed
qed

theorem approval_rule_witness:
  "(\<exists>r r0 f.
      label_case_inefficiencies
        \<lparr>case_id = ''case 7'', total_duration_days = Some 40, activity_count = Some 9,
         unique_activities = Some 7, has_rejections = Some False, rejection_count = Some 0,
         is_international = Some False, approval_time_days = Some 35\<rparr> = Inr r
    \<and> label_case_inefficiencies
        \<lparr>case_id = ''case 7'', total_duration_days = Some 40, activity_count = Some 9,
         unique_activities = Some 7, has_rejections = Some False, rejection_count = Some 0,
         is_international = Some False, approval_time_days = None\<rparr> = Inr r0
    \<and> filter (\<lambda>f. type f = ''supervisor_approval_bottleneck'') (inefficiencies r) = [f]
    \<and> severity f = ''medium''
    \<and> severity_score r = severity_score r0 + 3)
   \<and> (\<exists>r. label_case_inefficiencies
        \<lparr>case_id = ''case 8'', total_duration_days = Some 40, activity_count = Some 9,
         unique_activities = Some 7, has_rejections = Some False, rejection_count = Some 0,
         is_international = Some False, approval_time_days = Some 30\<rparr> = Inr r
    \<and> filter (\<lambda>f. type f = ''supervisor_approval_bottleneck'') (inefficiencies r) = [])"
proof -
  let ?c7 = "\<lparr>case_id = ''case 7'', total_duration_days = Some 40, activity_count = Some 9,
         unique_activities = Some 7, has_rejections = Some False, rejection_count = Some 0,
         is_international = Some False, approval_time_days = Some (35::real)\<rparr>"
  let ?c8 = "\<lparr>case_id = ''case 8'', total_duration_days = Some 40, activity_count = Some 9,
         unique_activities = Some 7, has_rejections = Some False, rejection_count = Some 0,
         is_international = Some False, approval_time_days = Some (30::real)\<rparr>"
  have late: "approval_time_days ?c7 = Some 35 \<and> (30::real) < 35"
    by simp
  have timely: "approval_time_days ?c8 = None
      \<or> (approval_time_days ?c8 = Some 30 \<and> (30::real) \<le> 30)"
    by simp
  from approval_rule [of ?c7 35, THEN conjunct1, THEN mp, OF late]
  obtain r r0 f where fired:
    "label_case_inefficiencies ?c7 = Inr r"
    "label_case_inefficiencies (?c7\<lparr>approval_time_days := None\<rparr>) = Inr r0"
    "filter (\<lambda>f. type f = ''supervisor_approval_bottleneck'') (inefficiencies r) = [f]"
    "severity f = (if (50::real) < 35 then ''high'' else ''medium'')"
    "severity_score r = severity_score r0 + 3"
    by blast
  from fired(2) have r0: "label_case_inefficiencies
        \<lparr>case_id = ''case 7'', total_duration_days = Some 40, activity_count = Some 9,
         unique_activities = Some 7, has_rejections = Some False, rejection_count = Some 0,
         is_international = Some False, approval_time_days = None\<rparr> = Inr r0"
    by simp
  from fired(4) have medium: "severity f = ''medium''"
    by simp
  from approval_rule [of ?c8 30, THEN conjunct2, THEN mp, OF timely]
  have quiet: "\<exists>r. label_case_inefficiencies ?c8 = Inr r
    \<and> filter (\<lambda>f. type f = ''supervisor_approval_bottleneck'') (inefficiencies r) = []" .
  from fired(1) r0 fired(3) medium fired(5) quiet show ?thesis
    by blast
qed

subsection \<open>The types the labeler emits\<close>

text \<open>
  Claim C10. For every case features the labeler returns, without raising, findings whose
  types all lie among \<open>excessive_duration_international\<close>, \<open>excessive_duration_domestic\<close>,
  \<open>supervisor_approval_bottleneck\<close>, \<open>excessive_rejections\<close> and \<open>process_complexity\<close>.
  In particular \<open>director_approval_bottleneck\<close> and \<open>late_submission\<close> are never emitted,
  although the threshold table (under \<open>director_approval_bottleneck\<close> and
  \<open>late_submission_days\<close>), the framework mappings and both recommendation tables have
  entries for them.
\<close>

theorem emitted_types:
  "\<exists>r. label_case_inefficiencies cf = Inr r
     \<and> set (map type (inefficiencies r)) \<subseteq>
         {''excessive_duration_international'', ''excessive_duration_domestic'',
          ''supervisor_approval_bottleneck'', ''excessive_rejections'', ''process_complexity''}
     \<and> ''director_approval_bottleneck'' \<notin> set (map type (inefficiencies r))
     \<and> ''late_submission'' \<notin> set (map type (inefficiencies r))
     \<and> map_of thresholds ''director_approval_bottleneck'' = Some 45
     \<and> map_of thresholds ''late_submission_days'' = Some 60
     \<and> ''director_approval_bottleneck'' \<in> set (map fst framework_mappings)
     \<and> ''late_submission'' \<in> set (map fst framework_mappings)
     \<and> ''director_approval_bottleneck'' \<in> set (map fst recommendations)
     \<and> ''late_submission'' \<in> set (map fst recommendations)
     \<and> ''director_approval_bottleneck'' \<in> set (map fst improvements)
     \<and> ''late_submission'' \<in> set (map fst improvements)"
proof -
  obtain ds nd as na rs nr cs nc where shape:
    "\<forall>f \<in> set ds. type f = ''excessive_duration_international''
                     \<or> type f = ''excessive_duration_domestic''"
    "\<forall>f \<in> set as. type f = ''supervisor_approval_bottleneck''"
    "\<forall>f \<in> set rs. type f = ''excessive_rejections''"
    "\<forall>f \<in> set cs. type f = ''process_complexity''"
    "label_case_inefficiencies cf =
       Inr \<lparr>inefficiencies = ds @ as @ rs @ cs,
            severity_score = nd + na + nr + nc,
            total_inefficiency_count = length (ds @ as @ rs @ cs),
            optimization_potential = calculate_optimization_potential (ds @ as @ rs @ cs)\<rparr>"
    using label_case_inefficiencies_shape [of cf] by blast
  let ?five = "{''excessive_duration_international'', ''excessive_duration_domestic'',
          ''supervisor_approval_bottleneck'', ''excessive_rejections'', ''process_complexity''}"
  have types: "set (map type (ds @ as @ rs @ cs)) \<subseteq> ?five"
    using shape(1-4) by auto
  have absent: "''director_approval_bottleneck'' \<notin> ?five" "''late_submission'' \<notin> ?five"
    by simp_all
  have never: "''director_approval_bottleneck'' \<notin> set (map type (ds @ as @ rs @ cs))"
    "''late_submission'' \<notin> set (map type (ds @ as @ rs @ cs))"
    using subsetD [OF types] absent by (metis, metis)
  have tables:
    "map_of thresholds ''director_approval_bottleneck'' = Some 45"
    "map_of thresholds ''late_submission_days'' = Some 60"
    "''director_approval_bottleneck'' \<in> set (map fst framework_mappings)"
    "''late_submission'' \<in> set (map fst framework_mappings)"
    "''director_approval_bottleneck'' \<in> set (map fst recommendations)"
    "''late_submission'' \<in> set (map fst recommendations)"
    "''director_approval_bottleneck'' \<in> set (map fst improvements)"
    "''late_submission'' \<in> set (map fst improvements)"
    by (simp_all add: thresholds_def framework_mappings_def recommendations_def improvements_def)
  let ?r = "\<lparr>inefficiencies = ds @ as @ rs @ cs,
            severity_score = nd + na + nr + nc,
            total_inefficiency_count = length (ds @ as @ rs @ cs),
            optimization_potential = calculate_optimization_potential (ds @ as @ rs @ cs)\<rparr>"
  have sel: "inefficiencies ?r = ds @ as @ rs @ cs"
    by simp
  show ?thesis
    apply (rule exI [of _ ?r])
    apply (simp only: sel)
    apply (intro conjI)
    apply (rule shape(5))
    apply (rule types)
    apply (rule never(1))
    apply (rule never(2))
    apply (rule tables)+
    done
qed

section \<open>Properties of the feature extractor\<close>

text \<open>
  Claim C5 does not hold of \<open>extract_training_features\<close>: it tests each activity name
  for the substring \<open>REJECT\<close> in capitals only. On the log below, one case with a
  lower-case \<open>rejected\<close> event and a \<open>declined\<close> event, it stores \<open>has_rejections\<close>
  false and \<open>rejection_count\<close> 0, where the claim asks for true and 2. The filter of
  \<open>identify_bottlenecks\<close> in the same class, which searches \<open>REJECT|DECLINED\<close> without
  regard to case, selects both events.
\<close>

theorem rejection_features_case_sensitive:
  "extract_training_features
     [(''domestic_declarations'',
       [\<lparr>case_concept_name = ''declaration 1'',
         concept_name = ''Declaration SUBMITTED by EMPLOYEE'', time_timestamp = 0\<rparr>,
        \<lparr>case_concept_name = ''declaration 1'',
         concept_name = ''Declaration rejected by supervisor'', time_timestamp = 86400\<rparr>,
        \<lparr>case_concept_name = ''declaration 1'',
         concept_name = ''Payment declined'', time_timestamp = 172800\<rparr>])]
     ''domestic_declarations''
   = Some [\<lparr>case_id = ''declaration 1'', total_duration_days = Some 2,
            activity_count = Some 3, unique_activities = Some 3,
            has_rejections = Some False, rejection_count = Some 0,
            is_international = Some False, approval_time_days = None,
            activities_sequence =
              [''Declaration SUBMITTED by EMPLOYEE'', ''Declaration rejected by supervisor'',
               ''Payment declined''],
            timestamps = [0, 86400, 172800]\<rparr>]
   \<and> bottleneck_rejections
       [\<lparr>case_concept_name = ''declaration 1'',
         concept_name = ''Declaration SUBMITTED by EMPLOYEE'', time_timestamp = 0\<rparr>,
        \<lparr>case_concept_name = ''declaration 1'',
         concept_name = ''Declaration rejected by supervisor'', time_timestamp = 86400\<rparr>,
        \<lparr>case_concept_name = ''declaration 1'',
         concept_name = ''Payment declined'', time_timestamp = 172800\<rparr>]
     = [\<lparr>case_concept_name = ''declaration 1'',
         concept_name = ''Declaration rejected by supervisor'', time_timestamp = 86400\<rparr>,
        \<lparr>case_concept_name = ''declaration 1'',
         concept_name = ''Payment declined'', time_timestamp = 172800\<rparr>]"
  by code_simp

text \<open>
  What the extractor does compute: the count of the activity names of the case that
  contain \<open>REJECT\<close> as written, and whether there is one.
\<close>

lemma rejection_features_computed:
  "has_rejections (case_training_features dataset_name cid df)
     = Some (\<exists>e \<in> set df. case_concept_name e = cid \<and> str_in ''REJECT'' (concept_name e))
   \<and> rejection_count (case_training_features dataset_name cid df)
     = Some (int (length (filter (\<lambda>e. case_concept_name e = cid
                                     \<and> str_in ''REJECT'' (concept_name e)) df)))"
proof -
  have "filter (\<lambda>e. str_in ''REJECT'' (concept_name e))
          (sort_values (filter (\<lambda>e. case_concept_name e = cid) df))
        = sort_key time_timestamp
            (filter (\<lambda>e. str_in ''REJECT'' (concept_name e))
               (filter (\<lambda>e. case_concept_name e = cid) df))"
    by (simp only: sort_values_def filter_sort)
  then have count: "length (filter (\<lambda>e. str_in ''REJECT'' (concept_name e))
               (sort_values (filter (\<lambda>e. case_concept_name e = cid) df)))
           = length (filter (\<lambda>e. case_concept_name e = cid \<and> str_in ''REJECT'' (concept_name e)) df)"
    by (simp add: conj_commute)
  have ex: "list_ex (\<lambda>act. str_in ''REJECT'' act)
         (map concept_name (sort_values (filter (\<lambda>e. case_concept_name e = cid) df)))
       = (\<exists>e \<in> set df. case_concept_name e = cid \<and> str_in ''REJECT'' (concept_name e))"
    by (auto simp add: list_ex_iff sort_values_def)
  show ?thesis
    using count ex
    by (simp add: case_training_features_def Let_def filter_map comp_def)
qed

section \<open>Properties of the deployment validator\<close>

subsection \<open>Try blocks\<close>



lemma share_bounds:
  assumes "py_truediv a b = Inr share" and "0 \<le> a" and "a \<le> b"
  shows "0 \<le> share * 100 \<and> share * 100 \<le> 100"
proof -
  from assms(1) have b: "b \<noteq> 0" and share: "share = a / b"
    by (auto simp add: py_truediv_def split: if_splits)
  from b assms(2,3) have "a / b \<le> 1" "0 \<le> a / b"
    by (simp_all add: divide_le_eq)
  moreover have "\<And>q::real. q \<le> 1 \<Longrightarrow> 0 \<le> q \<Longrightarrow> 0 \<le> q * 100 \<and> q * 100 \<le> 100"
    by linarith
  ultimately have "0 \<le> a / b * 100 \<and> a / b * 100 \<le> 100"
    by blast
  then show ?thesis
    by (simp only: share)
qed


subsection \<open>Infrastructure\<close>

lemma dynamodb_tables_shape:
  "validate_tables env required_tables [] =
     map (\<lambda>table_name.
            (table_name,
             case describe_table env table_name of
               Inl e \<Rightarrow> False
             | Inr status \<Rightarrow> status = ''ACTIVE''))
         required_tables"
  by (simp add: required_tables_def dict_set_def)


subsection \<open>Data completeness\<close>

lemma length_dict_set: "length (dict_set k v d) \<le> Suc (length d)"
  by (simp add: dict_set_def)

lemma length_check_files: "length (check_files check fs acc) \<le> length acc + length fs"
proof (induction fs arbitrary: acc)
  case Nil
  then show ?case by simp
next
  case (Cons f fs)
  have "length (check_files check fs (dict_set f (check f) acc))
          \<le> length (dict_set f (check f) acc) + length fs"
    by (rule Cons.IH)
  also have "\<dots> \<le> Suc (length acc) + length fs"
    using length_dict_set [of f "check f" acc] by simp
  finally show ?case by simp
qed

lemma count_existing_le: "count_existing (check_files check fs []) \<le> length fs"
proof -
  have "count_existing (check_files check fs []) \<le> length (check_files check fs [])"
    by (simp add: count_existing_def)
  also have "\<dots> \<le> length fs"
    using length_check_files [of check fs "[]"] by simp
  finally show ?thesis .
qed

lemma validate_data_completeness_total:
  "\<exists>data. validate_data_completeness env = Inr data
     \<and> 0 \<le> data_quality_score data \<and> data_quality_score data \<le> 100"
proof -
  let ?existing = "count_existing (check_files (check_training_file env) training_files [])
      + count_existing (check_files (check_file env) framework_files [])
      + count_existing (check_files (check_file env) validation_files [])"
  let ?total = "length training_files + length framework_files + length validation_files"
  have total: "?total = 13"
    by (simp add: training_files_def framework_files_def validation_files_def)
  have le: "?existing \<le> ?total"
    using count_existing_le [of "check_training_file env" training_files]
      count_existing_le [of "check_file env" framework_files]
      count_existing_le [of "check_file env" validation_files]
    by linarith
  have div: "py_truediv (real ?existing) (real ?total) = Inr (real ?existing / real ?total)"
    using total by (simp add: py_truediv_def)
  have "0 \<le> real ?existing / real ?total * 100 \<and> real ?existing / real ?total * 100 \<le> 100"
    using le by (intro share_bounds [OF div]) simp_all
  then show ?thesis
    unfolding validate_data_completeness_def Let_def
    by (simp only: div ebind_Inr) simp
qed


subsection \<open>Framework knowledge\<close>




subsection \<open>Research compliance\<close>




subsection \<open>The overall score\<close>

lemma calculate_overall_score_scores:
  "component_scores (calculate_overall_score results) =
     Some [(''Infrastructure'',
            (if (case infrastructure results of None \<Rightarrow> False | Some i \<Rightarrow> s3_bucket i)
             then 25 else 0)
            + real (case infrastructure results of
                      None \<Rightarrow> 0
                    | Some i \<Rightarrow> length (filter (\<lambda>table. table) (map snd (dynamodb_tables i))))
              / 4 * 50
            + (if (case infrastructure results of None \<Rightarrow> False | Some i \<Rightarrow> bedrock_access i)
               then 25 else 0)),
           (''Data Quality'',
            case data_validation results of None \<Rightarrow> 0 | Some d \<Rightarrow> data_quality_score d),
           (''Framework Knowledge'',
            case framework_knowledge results of
              None \<Rightarrow> 0
            | Some f \<Rightarrow> knowledge_completeness_score f),
           (''Research Compliance'',
            case research_compliance results of None \<Rightarrow> 0 | Some r \<Rightarrow> compliance_score r)]"
  by (simp add: calculate_overall_score_def Let_def)

lemma calculate_overall_score_weighted:
  "\<exists>infra_score data_score framework_score research_score.
     component_scores (calculate_overall_score results) =
       Some [(''Infrastructure'', infra_score), (''Data Quality'', data_score),
             (''Framework Knowledge'', framework_score),
             (''Research Compliance'', research_score)]
   \<and> overall_score (calculate_overall_score results) =
       infra_score * (25 / 100) + data_score * (20 / 100)
       + framework_score * (25 / 100) + research_score * (30 / 100)"
  by (simp add: calculate_overall_score_def Let_def)


lemma calculate_overall_score_keeps_error:
  "validation_error (calculate_overall_score results) = validation_error results"
  by (simp add: calculate_overall_score_def Let_def)

lemma run_full_validation_eq:
  assumes "validate_data_completeness env = Inr data"
  shows "run_full_validation env =
     calculate_overall_score
       \<lparr>infrastructure = Some (validate_infrastructure env),
        data_validation = Some data,
        framework_knowledge = Some (validate_framework_knowledge env),
        research_compliance = Some (validate_research_compliance env),
        overall_score = 0, component_scores = None, validation_error = None\<rparr>"
  by (simp add: run_full_validation_def initial_results_def assms)



subsection \<open>What each validation reads of the services\<close>

lemma validate_tables_cong:
  "describe_table env' = describe_table env
     \<Longrightarrow> validate_tables env' ts acc = validate_tables env ts acc"
  by (induction ts arbitrary: acc) simp_all

lemma check_file_cong:
  assumes "head_object env' = head_object env"
  shows "check_training_file env' = check_training_file env"
    and "check_file env' = check_file env"
  using assms by (simp_all add: fun_eq_iff check_training_file_def check_file_def)

lemma validate_data_completeness_cong:
  assumes "head_object env' = head_object env"
  shows "validate_data_completeness env' = validate_data_completeness env"
  by (simp only: validate_data_completeness_def check_file_cong [OF assms])

lemma validate_framework_knowledge_cong:
  assumes "get_object_json env' = get_object_json env"
  shows "validate_framework_knowledge env' = validate_framework_knowledge env"
proof -
  have "load_agile_framework env' = load_agile_framework env"
    "load_lean_framework env' = load_lean_framework env"
    "load_operating_model env' = load_operating_model env"
    "load_integration_rules env' = load_integration_rules env"
    using assms
    by (simp_all add: fun_eq_iff load_agile_framework_def load_lean_framework_def
        load_operating_model_def load_integration_rules_def)
  then show ?thesis
    by (simp only: validate_framework_knowledge_def)
qed

lemma validate_research_compliance_cong:
  assumes "get_object_json env' = get_object_json env"
  shows "validate_research_compliance env' = validate_research_compliance env"
proof -
  have "check_benchmarks env' = check_benchmarks env" "check_citations env' = check_citations env"
    using assms by (simp_all add: fun_eq_iff check_benchmarks_def check_citations_def)
  then show ?thesis
    by (simp only: validate_research_compliance_def)
qed

subsection \<open>The results of a full validation\<close>

lemma run_full_validation_results:
  assumes "validate_data_completeness env = Inr data"
  shows "infrastructure (run_full_validation env) = Some (validate_infrastructure env)"
    and "data_validation (run_full_validation env) = Some data"
    and "validation_error (run_full_validation env) = None"
    and "component_scores (run_full_validation env) =
      Some [(''Infrastructure'',
             (if s3_bucket (validate_infrastructure env) then 25 else 0)
             + real (length (filter (\<lambda>table. table)
                       (map snd (dynamodb_tables (validate_infrastructure env))))) / 4 * 50
             + (if bedrock_access (validate_infrastructure env) then 25 else 0)),
            (''Data Quality'', data_quality_score data),
            (''Framework Knowledge'',
             knowledge_completeness_score (validate_framework_knowledge env)),
            (''Research Compliance'', compliance_score (validate_research_compliance env))]"
proof -
  have run: "run_full_validation env = calculate_overall_score
       \<lparr>infrastructure = Some (validate_infrastructure env),
        data_validation = Some data,
        framework_knowledge = Some (validate_framework_knowledge env),
        research_compliance = Some (validate_research_compliance env),
        overall_score = 0, component_scores = None, validation_error = None\<rparr>"
    using assms by (rule run_full_validation_eq)
  show "infrastructure (run_full_validation env) = Some (validate_infrastructure env)"
    and "data_validation (run_full_validation env) = Some data"
    and "validation_error (run_full_validation env) = None"
    by (simp_all only: run) (simp_all add: calculate_overall_score_def Let_def)
  show "component_scores (run_full_validation env) =
      Some [(''Infrastructure'',
             (if s3_bucket (validate_infrastructure env) then 25 else 0)
             + real (length (filter (\<lambda>table. table)
                       (map snd (dynamodb_tables (validate_infrastructure env))))) / 4 * 50
             + (if bedrock_access (validate_infrastructure env) then 25 else 0)),
            (''Data Quality'', data_quality_score data),
            (''Framework Knowledge'',
             knowledge_completeness_score (validate_framework_knowledge env)),
            (''Research Compliance'', compliance_score (validate_research_compliance env))]"
    by (simp only: run calculate_overall_score_scores) simp
qed

subsection \<open>Counting with one entry switched off\<close>

lemma filter_length_except:
  "distinct xs \<Longrightarrow>
   length (filter (\<lambda>x. x \<noteq> k \<and> P x) xs) + (if k \<in> set xs \<and> P k then 1 else 0)
     = length (filter P xs)"
proof (induction xs)
  case Nil
  then show ?case by simp
next
  case (Cons x xs)
  then have IH: "length (filter (\<lambda>x. x \<noteq> k \<and> P x) xs) + (if k \<in> set xs \<and> P k then 1 else 0)
     = length (filter P xs)"
    and fresh: "x \<notin> set xs"
    by simp_all
  show ?case
  proof (cases "x = k")
    case True
    with fresh have "filter (\<lambda>x. x \<noteq> k \<and> P x) xs = filter P xs"
      by (intro filter_cong) auto
    with True show ?thesis by simp
  next
    case False
    with IH show ?thesis by auto
  qed
qed

subsection \<open>One failed query\<close>

lemma bucket_failure:
  "\<exists>infra i i' d f c.
     infrastructure (run_full_validation (env\<lparr>head_bucket := \<lambda>bucket. Inl e\<rparr>)) = Some infra
   \<and> \<not> s3_bucket infra
   \<and> validation_error (run_full_validation (env\<lparr>head_bucket := \<lambda>bucket. Inl e\<rparr>)) = None
   \<and> component_scores (run_full_validation env) =
       Some [(''Infrastructure'', i), (''Data Quality'', d),
             (''Framework Knowledge'', f), (''Research Compliance'', c)]
   \<and> component_scores (run_full_validation (env\<lparr>head_bucket := \<lambda>bucket. Inl e\<rparr>)) =
       Some [(''Infrastructure'', i'), (''Data Quality'', d),
             (''Framework Knowledge'', f), (''Research Compliance'', c)]
   \<and> i' = i - (case head_bucket env ''workflow-optimization-data'' of
                 Inl x \<Rightarrow> 0 | Inr u \<Rightarrow> 25)"
proof -
  let ?env' = "env\<lparr>head_bucket := \<lambda>bucket. Inl e\<rparr>"
  obtain data where data: "validate_data_completeness env = Inr data"
    using validate_data_completeness_total [of env] by blast
  have data': "validate_data_completeness ?env' = Inr data"
    using data by (simp add: validate_data_completeness_cong [of ?env' env])
  have fk: "validate_framework_knowledge ?env' = validate_framework_knowledge env"
    by (rule validate_framework_knowledge_cong) simp
  have rc: "validate_research_compliance ?env' = validate_research_compliance env"
    by (rule validate_research_compliance_cong) simp
  have infra: "validate_infrastructure ?env' = (validate_infrastructure env)\<lparr>s3_bucket := False\<rparr>"
    by (simp add: validate_infrastructure_def validate_tables_cong [of ?env' env])
  have was: "s3_bucket (validate_infrastructure env)
      = (case head_bucket env ''workflow-optimization-data'' of Inl x \<Rightarrow> False | Inr u \<Rightarrow> True)"
    by (simp add: validate_infrastructure_def)
  show ?thesis
    using run_full_validation_results [OF data] run_full_validation_results [OF data']
    by (simp add: fk rc infra was split: sum.splits)
qed

lemma models_failure:
  "\<exists>infra i i' d f c.
     infrastructure (run_full_validation (env\<lparr>list_foundation_models := Inl e\<rparr>)) = Some infra
   \<and> \<not> bedrock_access infra
   \<and> validation_error (run_full_validation (env\<lparr>list_foundation_models := Inl e\<rparr>)) = None
   \<and> component_scores (run_full_validation env) =
       Some [(''Infrastructure'', i), (''Data Quality'', d),
             (''Framework Knowledge'', f), (''Research Compliance'', c)]
   \<and> component_scores (run_full_validation (env\<lparr>list_foundation_models := Inl e\<rparr>)) =
       Some [(''Infrastructure'', i'), (''Data Quality'', d),
             (''Framework Knowledge'', f), (''Research Compliance'', c)]
   \<and> i' = i - (if bedrock_access (validate_infrastructure env) then 25 else 0)"
proof -
  let ?env' = "env\<lparr>list_foundation_models := Inl e\<rparr>"
  obtain data where data: "validate_data_completeness env = Inr data"
    using validate_data_completeness_total [of env] by blast
  have data': "validate_data_completeness ?env' = Inr data"
    using data by (simp add: validate_data_completeness_cong [of ?env' env])
  have fk: "validate_framework_knowledge ?env' = validate_framework_knowledge env"
    by (rule validate_framework_knowledge_cong) simp
  have rc: "validate_research_compliance ?env' = validate_research_compliance env"
    by (rule validate_research_compliance_cong) simp
  have infra: "validate_infrastructure ?env'
      = (validate_infrastructure env)\<lparr>bedrock_access := False\<rparr>"
    by (simp add: validate_infrastructure_def validate_tables_cong [of ?env' env])
  show ?thesis
    using run_full_validation_results [OF data] run_full_validation_results [OF data']
    by (simp add: fk rc infra)
qed

lemma table_share_drop:
  fixes n n' :: nat
  assumes "n' + (if b then 1 else 0) = n"
  shows "real n' / 4 * 50 = real n / 4 * 50 - (if b then 25 / 2 else 0)"
proof -
  from assms have "real n = real n' + (if b then 1 else 0)"
    by (cases b) auto
  then show ?thesis
    by (cases b) (simp_all add: field_simps)
qed

lemma table_failure:
  assumes t: "t \<in> set required_tables"
  shows "\<exists>infra i i' d f c.
     infrastructure (run_full_validation
        (env\<lparr>describe_table := (describe_table env)(t := Inl e)\<rparr>)) = Some infra
   \<and> map_of (dynamodb_tables infra) t = Some False
   \<and> validation_error (run_full_validation
        (env\<lparr>describe_table := (describe_table env)(t := Inl e)\<rparr>)) = None
   \<and> component_scores (run_full_validation env) =
       Some [(''Infrastructure'', i), (''Data Quality'', d),
             (''Framework Knowledge'', f), (''Research Compliance'', c)]
   \<and> component_scores (run_full_validation
        (env\<lparr>describe_table := (describe_table env)(t := Inl e)\<rparr>)) =
       Some [(''Infrastructure'', i'), (''Data Quality'', d),
             (''Framework Knowledge'', f), (''Research Compliance'', c)]
   \<and> i' = i - (case describe_table env t of
                 Inl x \<Rightarrow> 0
               | Inr status \<Rightarrow> if status = ''ACTIVE'' then 25 / 2 else 0)"
proof -
  let ?env' = "env\<lparr>describe_table := (describe_table env)(t := Inl e)\<rparr>"
  let ?active = "\<lambda>table_name. case describe_table env table_name of
                    Inl x \<Rightarrow> False | Inr status \<Rightarrow> status = ''ACTIVE''"
  obtain data where data: "validate_data_completeness env = Inr data"
    using validate_data_completeness_total [of env] by blast
  have data': "validate_data_completeness ?env' = Inr data"
    using data by (simp add: validate_data_completeness_cong [of ?env' env])
  have fk: "validate_framework_knowledge ?env' = validate_framework_knowledge env"
    by (rule validate_framework_knowledge_cong) simp
  have rc: "validate_research_compliance ?env' = validate_research_compliance env"
    by (rule validate_research_compliance_cong) simp
  have tables: "dynamodb_tables (validate_infrastructure env)
      = map (\<lambda>table_name. (table_name, ?active table_name)) required_tables"
    by (simp add: validate_infrastructure_def dynamodb_tables_shape)
  have tables': "dynamodb_tables (validate_infrastructure ?env')
      = map (\<lambda>table_name. (table_name, table_name \<noteq> t \<and> ?active table_name)) required_tables"
    by (simp add: validate_infrastructure_def dynamodb_tables_shape)
  have same: "s3_bucket (validate_infrastructure ?env') = s3_bucket (validate_infrastructure env)"
    "bedrock_access (validate_infrastructure ?env') = bedrock_access (validate_infrastructure env)"
    by (simp_all add: validate_infrastructure_def)
  have distinct: "distinct required_tables"
    by (simp add: required_tables_def)
  have count: "length (filter (\<lambda>table. table) (map snd (dynamodb_tables (validate_infrastructure ?env'))))
        + (if ?active t then 1 else 0)
      = length (filter (\<lambda>table. table) (map snd (dynamodb_tables (validate_infrastructure env))))"
    using filter_length_except [OF distinct, of t ?active] t
    by (simp add: tables tables' filter_map comp_def)
  have recorded: "map_of (dynamodb_tables (validate_infrastructure ?env')) t = Some False"
    using t by (simp add: tables' map_of_map_restrict)
  have drop: "real (length (filter (\<lambda>table. table)
                  (map snd (dynamodb_tables (validate_infrastructure ?env'))))) / 4 * 50
      = real (length (filter (\<lambda>table. table)
                  (map snd (dynamodb_tables (validate_infrastructure env))))) / 4 * 50
        - (if ?active t then 25 / 2 else 0)"
    using count by (rule table_share_drop)
  have "(if ?active t then 25 / 2 else (0::real))
      = (case describe_table env t of
           Inl x \<Rightarrow> 0
         | Inr status \<Rightarrow> if status = ''ACTIVE'' then 25 / 2 else 0)"
    by (simp split: sum.splits)
  with drop have drop': "real (length (filter (\<lambda>table. table)
                  (map snd (dynamodb_tables (validate_infrastructure ?env'))))) / 4 * 50
      = real (length (filter (\<lambda>table. table)
                  (map snd (dynamodb_tables (validate_infrastructure env))))) / 4 * 50
        - (case describe_table env t of
             Inl x \<Rightarrow> 0
           | Inr status \<Rightarrow> if status = ''ACTIVE'' then 25 / 2 else 0)"
    by simp
  show ?thesis
    using run_full_validation_results [OF data] run_full_validation_results [OF data'] recorded
    by (simp only: fk rc same drop') simp
qed

subsection \<open>The file checks\<close>

lemma check_files_shape:
  "check_files check training_files [] = map (\<lambda>f. (f, check f)) training_files"
  "check_files check framework_files [] = map (\<lambda>f. (f, check f)) framework_files"
  "check_files check validation_files [] = map (\<lambda>f. (f, check f)) validation_files"
  by (simp_all add: training_files_def framework_files_def validation_files_def dict_set_def)

lemma count_existing_map:
  "count_existing (map (\<lambda>f. (f, check f)) fs) = length (filter (\<lambda>f. exists (check f)) fs)"
  by (simp add: count_existing_def filter_map comp_def)

lemma total_files:
  "length training_files + length framework_files + length validation_files = 13"
  by (simp add: training_files_def framework_files_def validation_files_def)

lemma files_distinct:
  "distinct training_files" "distinct framework_files" "distinct validation_files"
  by (simp_all add: training_files_def framework_files_def validation_files_def)

lemma files_disjoint:
  "k \<in> set training_files \<Longrightarrow> k \<notin> set framework_files \<and> k \<notin> set validation_files"
  "k \<in> set framework_files \<Longrightarrow> k \<notin> set training_files \<and> k \<notin> set validation_files"
  "k \<in> set validation_files \<Longrightarrow> k \<notin> set training_files \<and> k \<notin> set framework_files"
  by (auto simp add: training_files_def framework_files_def validation_files_def)

lemma validate_data_completeness_eq:
  "validate_data_completeness env =
     Inr \<lparr>training_data = map (\<lambda>f. (f, check_training_file env f)) training_files,
          framework_knowledge_files = map (\<lambda>f. (f, check_file env f)) framework_files,
          validation_data = map (\<lambda>f. (f, check_file env f)) validation_files,
          data_quality_score =
            real (length (filter (\<lambda>f. exists (check_training_file env f)) training_files)
                  + length (filter (\<lambda>f. exists (check_file env f)) framework_files)
                  + length (filter (\<lambda>f. exists (check_file env f)) validation_files))
            / 13 * 100\<rparr>"
  unfolding validate_data_completeness_def Let_def
  by (simp only: check_files_shape count_existing_map total_files)
     (simp add: py_truediv_def)

lemma failed_object_check:
  "check_training_file
     (env\<lparr>head_object := \<lambda>bucket key. if key = k then Inl e else head_object env bucket key\<rparr>) f
   = (if f = k
      then \<lparr>exists = False, file_size = None, last_modified = None, error = Some (error_str e)\<rparr>
      else check_training_file env f)"
  "check_file
     (env\<lparr>head_object := \<lambda>bucket key. if key = k then Inl e else head_object env bucket key\<rparr>) f
   = (if f = k
      then \<lparr>exists = False, file_size = None, last_modified = None, error = Some (error_str e)\<rparr>
      else check_file env f)"
  by (simp_all add: check_training_file_def check_file_def)

lemma file_share_drop:
  fixes n n' :: nat
  assumes "n' + (if b then 1 else 0) = n"
  shows "real n' / 13 * 100 = real n / 13 * 100 - (if b then 100 / 13 else 0)"
proof -
  from assms have "real n = real n' + (if b then 1 else 0)"
    by (cases b) auto
  then show ?thesis
    by (cases b) (simp_all add: field_simps)
qed

lemma map_of_checked:
  "map_of (map (\<lambda>f. (f, g f)) fs) k = (if k \<in> set fs then Some (g k) else None)"
  by (induction fs) simp_all

lemma map_of_all_files:
  "map_of (map (\<lambda>f. (f, g f)) training_files @ map (\<lambda>f. (f, h f)) framework_files
           @ map (\<lambda>f. (f, h f)) validation_files) k
   = (if k \<in> set training_files then Some (g k)
      else if k \<in> set framework_files \<or> k \<in> set validation_files then Some (h k)
      else None)"
  by (simp add: map_of_checked map_add_def)

lemma one_indicator:
  assumes "k \<in> set (training_files @ framework_files @ validation_files)"
  shows "(if k \<in> set training_files \<and> a then 1 else 0)
      + (if k \<in> set framework_files \<and> b then 1 else 0)
      + (if k \<in> set validation_files \<and> b then 1 else (0::nat))
      = (if (if k \<in> set training_files then a else b) then 1 else 0)"
proof -
  from assms consider "k \<in> set training_files" | "k \<in> set framework_files"
    | "k \<in> set validation_files"
    by auto
  then show ?thesis
  proof cases
    case 1
    with files_disjoint(1) [OF 1] show ?thesis by simp
  next
    case 2
    with files_disjoint(2) [OF 2] show ?thesis by simp
  next
    case 3
    with files_disjoint(3) [OF 3] show ?thesis by simp
  qed
qed

lemma object_failure:
  assumes k: "k \<in> set (training_files @ framework_files @ validation_files)"
  shows "\<exists>data data' info i d d' f c.
     data_validation (run_full_validation env) = Some data
   \<and> data_validation (run_full_validation
        (env\<lparr>head_object := \<lambda>bucket key. if key = k then Inl e else head_object env bucket key\<rparr>))
       = Some data'
   \<and> map_of (training_data data @ framework_knowledge_files data @ validation_data data) k
       = Some info
   \<and> map_of (training_data data' @ framework_knowledge_files data' @ validation_data data') k
       = Some \<lparr>exists = False, file_size = None, last_modified = None,
               error = Some (error_str e)\<rparr>
   \<and> validation_error (run_full_validation
        (env\<lparr>head_object := \<lambda>bucket key. if key = k then Inl e else head_object env bucket key\<rparr>))
       = None
   \<and> component_scores (run_full_validation env) =
       Some [(''Infrastructure'', i), (''Data Quality'', d),
             (''Framework Knowledge'', f), (''Research Compliance'', c)]
   \<and> component_scores (run_full_validation
        (env\<lparr>head_object := \<lambda>bucket key. if key = k then Inl e else head_object env bucket key\<rparr>))
       = Some [(''Infrastructure'', i), (''Data Quality'', d'),
               (''Framework Knowledge'', f), (''Research Compliance'', c)]
   \<and> d' = d - (if exists info then 100 / 13 else 0)"
proof -
  let ?env' = "env\<lparr>head_object := \<lambda>bucket key. if key = k then Inl e else head_object env bucket key\<rparr>"
  let ?failed = "\<lparr>exists = False, file_size = None, last_modified = None,
                  error = Some (error_str e)\<rparr>"
  let ?ct = "check_training_file env" and ?cf = "check_file env"
  let ?ct' = "check_training_file ?env'" and ?cf' = "check_file ?env'"
  let ?info = "if k \<in> set training_files then ?ct k else ?cf k"
  let ?n = "length (filter (\<lambda>f. exists (?ct f)) training_files)
              + length (filter (\<lambda>f. exists (?cf f)) framework_files)
              + length (filter (\<lambda>f. exists (?cf f)) validation_files)"
  let ?n' = "length (filter (\<lambda>f. exists (?ct' f)) training_files)
              + length (filter (\<lambda>f. exists (?cf' f)) framework_files)
              + length (filter (\<lambda>f. exists (?cf' f)) validation_files)"
  let ?data = "\<lparr>training_data = map (\<lambda>f. (f, ?ct f)) training_files,
      framework_knowledge_files = map (\<lambda>f. (f, ?cf f)) framework_files,
      validation_data = map (\<lambda>f. (f, ?cf f)) validation_files,
      data_quality_score = real ?n / 13 * 100\<rparr>"
  let ?data' = "\<lparr>training_data = map (\<lambda>f. (f, ?ct' f)) training_files,
      framework_knowledge_files = map (\<lambda>f. (f, ?cf' f)) framework_files,
      validation_data = map (\<lambda>f. (f, ?cf' f)) validation_files,
      data_quality_score = real ?n' / 13 * 100\<rparr>"
  have run: "validate_data_completeness env = Inr ?data"
    by (rule validate_data_completeness_eq)
  have run': "validate_data_completeness ?env' = Inr ?data'"
    by (rule validate_data_completeness_eq)
  have fk: "validate_framework_knowledge ?env' = validate_framework_knowledge env"
    by (rule validate_framework_knowledge_cong) simp
  have rc: "validate_research_compliance ?env' = validate_research_compliance env"
    by (rule validate_research_compliance_cong) simp
  have infra: "validate_infrastructure ?env' = validate_infrastructure env"
    by (simp add: validate_infrastructure_def validate_tables_cong [of ?env' env])
  have ex': "\<And>f. exists (?ct' f) = (f \<noteq> k \<and> exists (?ct f))"
    "\<And>f. exists (?cf' f) = (f \<noteq> k \<and> exists (?cf f))"
    by (simp_all add: failed_object_check)
  have counts:
    "length (filter (\<lambda>f. exists (?ct' f)) training_files)
       + (if k \<in> set training_files \<and> exists (?ct k) then 1 else 0)
     = length (filter (\<lambda>f. exists (?ct f)) training_files)"
    "length (filter (\<lambda>f. exists (?cf' f)) framework_files)
       + (if k \<in> set framework_files \<and> exists (?cf k) then 1 else 0)
     = length (filter (\<lambda>f. exists (?cf f)) framework_files)"
    "length (filter (\<lambda>f. exists (?cf' f)) validation_files)
       + (if k \<in> set validation_files \<and> exists (?cf k) then 1 else 0)
     = length (filter (\<lambda>f. exists (?cf f)) validation_files)"
    unfolding ex'
    by (rule filter_length_except, rule files_distinct)+
  have one: "(if k \<in> set training_files \<and> exists (?ct k) then 1 else 0)
      + (if k \<in> set framework_files \<and> exists (?cf k) then 1 else 0)
      + (if k \<in> set validation_files \<and> exists (?cf k) then 1 else (0::nat))
      = (if (if k \<in> set training_files then exists (?ct k) else exists (?cf k)) then 1 else 0)"
    using k by (rule one_indicator)
  have info: "exists ?info
      = (if k \<in> set training_files then exists (?ct k) else exists (?cf k))"
    by simp
  have total: "?n' + (if exists ?info then 1 else 0) = ?n"
    using counts one by (simp only: info)
  have score: "real ?n' / 13 * 100 = real ?n / 13 * 100 - (if exists ?info then 100 / 13 else 0)"
    using total by (rule file_share_drop)
  have listed: "k \<in> set training_files \<or> k \<in> set framework_files \<or> k \<in> set validation_files"
    using k by simp
  have entry: "map_of (training_data ?data @ framework_knowledge_files ?data
        @ validation_data ?data) k = Some ?info"
    using listed by (simp only: data_results.simps map_of_all_files) auto
  have entry': "map_of (training_data ?data' @ framework_knowledge_files ?data'
        @ validation_data ?data') k = Some ?failed"
    using listed by (simp only: data_results.simps map_of_all_files failed_object_check) auto
  have results: "data_validation (run_full_validation env) = Some ?data"
    "data_validation (run_full_validation ?env') = Some ?data'"
    "validation_error (run_full_validation ?env') = None"
    using run_full_validation_results(2) [OF run] run_full_validation_results(2,3) [OF run']
    by blast+
  have scores: "component_scores (run_full_validation env) =
      Some [(''Infrastructure'',
             (if s3_bucket (validate_infrastructure env) then 25 else 0)
             + real (length (filter (\<lambda>table. table)
                       (map snd (dynamodb_tables (validate_infrastructure env))))) / 4 * 50
             + (if bedrock_access (validate_infrastructure env) then 25 else 0)),
            (''Data Quality'', real ?n / 13 * 100),
            (''Framework Knowledge'',
             knowledge_completeness_score (validate_framework_knowledge env)),
            (''Research Compliance'', compliance_score (validate_research_compliance env))]"
    using run_full_validation_results(4) [OF run] by (simp only: data_results.simps)
  have scores': "component_scores (run_full_validation ?env') =
      Some [(''Infrastructure'',
             (if s3_bucket (validate_infrastructure env) then 25 else 0)
             + real (length (filter (\<lambda>table. table)
                       (map snd (dynamodb_tables (validate_infrastructure env))))) / 4 * 50
             + (if bedrock_access (validate_infrastructure env) then 25 else 0)),
            (''Data Quality'', real ?n' / 13 * 100),
            (''Framework Knowledge'',
             knowledge_completeness_score (validate_framework_knowledge env)),
            (''Research Compliance'', compliance_score (validate_research_compliance env))]"
    using run_full_validation_results(4) [OF run'] by (simp only: data_results.simps fk rc infra)
  show ?thesis
    apply (rule exI [of _ ?data])
    apply (rule exI [of _ ?data'])
    apply (rule exI [of _ ?info])
    apply (intro exI conjI)
           apply (rule results(1))
          apply (rule results(2))
         apply (rule entry)
        apply (rule entry')
       apply (rule results(3))
      apply (rule scores)
     apply (rule scores')
    apply (rule score)
    done
qed

subsection \<open>The two example deployments\<close>

lemma healthy_deployment:
  "component_scores (run_full_validation healthy) =
     Some [(''Infrastructure'', 100), (''Data Quality'', 100),
           (''Framework Knowledge'', 100), (''Research Compliance'', 100)]
   \<and> overall_score (run_full_validation healthy) = 100
   \<and> validation_error (run_full_validation healthy) = None"
  by code_simp

lemma offline_deployment:
  "component_scores (run_full_validation offline) =
     Some [(''Infrastructure'', 0), (''Data Quality'', 0),
           (''Framework Knowledge'', 0), (''Research Compliance'', 0)]
   \<and> overall_score (run_full_validation offline) = 0
   \<and> validation_error (run_full_validation offline) = None"
  by code_simp

lemma healthy_benchmark_file:
  "(case data_validation (run_full_validation healthy) of
      None \<Rightarrow> None
    | Some data \<Rightarrow>
        map_option exists
          (map_of (training_data data @ framework_knowledge_files data @ validation_data data)
             ''validation_data/benchmark_examples.json'')) = Some True"
  by code_simp

text \<open>
  Claim C9. Take any answers of the external services and let one existence or status
  query fail instead: the bucket check, the status query of one of the four required
  tables, the listing of the models, or the check of one of the thirteen expected objects.
  The validation still runs to its end with no exception reaching the outer handler and
  produces all four category scores. The failed artifact is recorded as absent: the bucket
  and the model access as false, the table as false in the table dictionary, the object
  with \<open>exists\<close> false and the error text. Only the score of the affected category
  changes, infrastructure for the first three and data quality for an object, and it
  falls by the share of that artifact when the query had succeeded before (25 for the
  bucket, 12.5 for an active table, 25 for the model access, 100/13 for an existing
  object) and stays the same otherwise.
\<close>

theorem single_failed_query:
  "(\<exists>infra i i' d f c.
     infrastructure (run_full_validation (env\<lparr>head_bucket := \<lambda>bucket. Inl e\<rparr>)) = Some infra
   \<and> \<not> s3_bucket infra
   \<and> validation_error (run_full_validation (env\<lparr>head_bucket := \<lambda>bucket. Inl e\<rparr>)) = None
   \<and> component_scores (run_full_validation env) =
       Some [(''Infrastructure'', i), (''Data Quality'', d),
             (''Framework Knowledge'', f), (''Research Compliance'', c)]
   \<and> component_scores (run_full_validation (env\<lparr>head_bucket := \<lambda>bucket. Inl e\<rparr>)) =
       Some [(''Infrastructure'', i'), (''Data Quality'', d),
             (''Framework Knowledge'', f), (''Research Compliance'', c)]
   \<and> i' = i - (case head_bucket env ''workflow-optimization-data'' of
                 Inl x \<Rightarrow> 0 | Inr u \<Rightarrow> 25))
 \<and> (t \<in> set required_tables \<longrightarrow>
    (\<exists>infra i i' d f c.
     infrastructure (run_full_validation
        (env\<lparr>describe_table := (describe_table env)(t := Inl e)\<rparr>)) = Some infra
   \<and> map_of (dynamodb_tables infra) t = Some False
   \<and> validation_error (run_full_validation
        (env\<lparr>describe_table := (describe_table env)(t := Inl e)\<rparr>)) = None
   \<and> component_scores (run_full_validation env) =
       Some [(''Infrastructure'', i), (''Data Quality'', d),
             (''Framework Knowledge'', f), (''Research Compliance'', c)]
   \<and> component_scores (run_full_validation
        (env\<lparr>describe_table := (describe_table env)(t := Inl e)\<rparr>)) =
       Some [(''Infrastructure'', i'), (''Data Quality'', d),
             (''Framework Knowledge'', f), (''Research Compliance'', c)]
   \<and> i' = i - (case describe_table env t of
                 Inl x \<Rightarrow> 0
               | Inr status \<Rightarrow> if status = ''ACTIVE'' then 25 / 2 else 0)))
 \<and> (\<exists>infra i i' d f c.
     infrastructure (run_full_validation (env\<lparr>list_foundation_models := Inl e\<rparr>)) = Some infra
   \<and> \<not> bedrock_access infra
   \<and> validation_error (run_full_validation (env\<lparr>list_foundation_models := Inl e\<rparr>)) = None
   \<and> component_scores (run_full_validation env) =
       Some [(''Infrastructure'', i), (''Data Quality'', d),
             (''Framework Knowledge'', f), (''Research Compliance'', c)]
   \<and> component_scores (run_full_validation (env\<lparr>list_foundation_models := Inl e\<rparr>)) =
       Some [(''Infrastructure'', i'), (''Data Quality'', d),
             (''Framework Knowledge'', f), (''Research Compliance'', c)]
   \<and> i' = i - (if bedrock_access (validate_infrastructure env) then 25 else 0))
 \<and> (k \<in> set (training_files @ framework_files @ validation_files) \<longrightarrow>
    (\<exists>data data' info i d d' f c.
     data_validation (run_full_validation env) = Some data
   \<and> data_validation (run_full_validation
        (env\<lparr>head_object := \<lambda>bucket key. if key = k then Inl e else head_object env bucket key\<rparr>))
       = Some data'
   \<and> map_of (training_data data @ framework_knowledge_files data @ validation_data data) k
       = Some info
   \<and> map_of (training_data data' @ framework_knowledge_files data' @ validation_data data') k
       = Some \<lparr>exists = False, file_size = None, last_modified = None,
               error = Some (error_str e)\<rparr>
   \<and> validation_error (run_full_validation
        (env\<lparr>head_object := \<lambda>bucket key. if key = k then Inl e else head_object env bucket key\<rparr>))
       = None
   \<and> component_scores (run_full_validation env) =
       Some [(''Infrastructure'', i), (''Data Quality'', d),
             (''Framework Knowledge'', f), (''Research Compliance'', c)]
   \<and> component_scores (run_full_validation
        (env\<lparr>head_object := \<lambda>bucket key. if key = k then Inl e else head_object env bucket key\<rparr>))
       = Some [(''Infrastructure'', i), (''Data Quality'', d'),
               (''Framework Knowledge'', f), (''Research Compliance'', c)]
   \<and> d' = d - (if exists info then 100 / 13 else 0)))"
  apply (intro conjI impI)
     apply (rule bucket_failure)
    apply (erule table_failure)
   apply (rule models_failure)
  apply (erule object_failure)
  done

theorem single_failed_query_witness:
  "component_scores (run_full_validation
      (healthy\<lparr>describe_table :=
         (describe_table healthy)(''system-configuration'' := Inl (ServiceError ''timeout''))\<rparr>))
     = Some [(''Infrastructure'', 175 / 2), (''Data Quality'', 100),
             (''Framework Knowledge'', 100), (''Research Compliance'', 100)]
   \<and> component_scores (run_full_validation
      (healthy\<lparr>head_object := \<lambda>bucket key.
         if key = ''validation_data/benchmark_examples.json'' then Inl (ServiceError ''timeout'')
         else head_object healthy bucket key\<rparr>))
     = Some [(''Infrastructure'', 100), (''Data Quality'', 1200 / 13),
             (''Framework Knowledge'', 100), (''Research Compliance'', 100)]"
proof -
  let ?e = "ServiceError ''timeout''"
  let ?t = "''system-configuration''"
  let ?k = "''validation_data/benchmark_examples.json''"
  note claim = single_failed_query [where env = healthy and e = ?e and t = ?t and k = ?k]
  have t: "?t \<in> set required_tables"
    by (simp add: required_tables_def)
  have k: "?k \<in> set (training_files @ framework_files @ validation_files)"
    by (simp add: validation_files_def)
  have scores: "component_scores (run_full_validation healthy) =
     Some [(''Infrastructure'', 100), (''Data Quality'', 100),
           (''Framework Knowledge'', 100), (''Research Compliance'', 100)]"
    using healthy_deployment by blast
  have active: "describe_table healthy ?t = Inr ''ACTIVE''"
    by (simp add: healthy_def)
  from claim [THEN conjunct2, THEN conjunct1, THEN mp, OF t]
  obtain i i' d f c where table:
    "component_scores (run_full_validation healthy) =
       Some [(''Infrastructure'', i), (''Data Quality'', d),
             (''Framework Knowledge'', f), (''Research Compliance'', c)]"
    "component_scores (run_full_validation
        (healthy\<lparr>describe_table := (describe_table healthy)(?t := Inl ?e)\<rparr>)) =
       Some [(''Infrastructure'', i'), (''Data Quality'', d),
             (''Framework Knowledge'', f), (''Research Compliance'', c)]"
    "i' = i - (case describe_table healthy ?t of
                 Inl x \<Rightarrow> 0
               | Inr status \<Rightarrow> if status = ''ACTIVE'' then 25 / 2 else 0)"
    by blast
  from table(1) scores have "i = 100" "d = 100" "f = 100" "c = 100"
    by simp_all
  with table(2,3) active have first: "component_scores (run_full_validation
        (healthy\<lparr>describe_table := (describe_table healthy)(?t := Inl ?e)\<rparr>))
     = Some [(''Infrastructure'', 175 / 2), (''Data Quality'', 100),
             (''Framework Knowledge'', 100), (''Research Compliance'', 100)]"
    by simp
  from claim [THEN conjunct2, THEN conjunct2, THEN conjunct2, THEN mp, OF k]
  obtain data info j b b' g h where object:
    "data_validation (run_full_validation healthy) = Some data"
    "map_of (training_data data @ framework_knowledge_files data @ validation_data data) ?k
       = Some info"
    "component_scores (run_full_validation healthy) =
       Some [(''Infrastructure'', j), (''Data Quality'', b),
             (''Framework Knowledge'', g), (''Research Compliance'', h)]"
    "component_scores (run_full_validation
        (healthy\<lparr>head_object := \<lambda>bucket key.
           if key = ?k then Inl ?e else head_object healthy bucket key\<rparr>))
       = Some [(''Infrastructure'', j), (''Data Quality'', b'),
               (''Framework Knowledge'', g), (''Research Compliance'', h)]"
    "b' = b - (if exists info then 100 / 13 else 0)"
    by blast
  from object(1,2) healthy_benchmark_file have present: "exists info"
    by simp
  from object(3) scores have "j = 100" "b = 100" "g = 100" "h = 100"
    by simp_all
  with object(4,5) present have second: "component_scores (run_full_validation
        (healthy\<lparr>head_object := \<lambda>bucket key.
           if key = ?k then Inl ?e else head_object healthy bucket key\<rparr>))
     = Some [(''Infrastructure'', 100), (''Data Quality'', 1200 / 13),
             (''Framework Knowledge'', 100), (''Research Compliance'', 100)]"
    by simp
  from first second show ?thesis
    by (rule conjI)
qed

subsection \<open>The overall score and the exit status\<close>







end
